theory Spec2Isabelle
  imports Main "HOL-Library.Word" "HOL-Library.AList"
begin

unbundle bit_operations_syntax

section \<open>The announce handler of the tracker (tracker/service/tracker.go)\<close>

text \<open>
  The theory embeds \<^verbatim>\<open>GetAnnounceHandler\<close> of \<^verbatim>\<open>tracker/service/tracker.go\<close>.
  The handler reads nine query parameters, parses five of them as integers, builds one
  \<^verbatim>\<open>storage.PeerInfo\<close>, calls the datastore (\<^verbatim>\<open>Update\<close>, \<^verbatim>\<open>Read\<close>), the peer handout
  policy (\<^verbatim>\<open>AssignPeerPriority\<close>, \<^verbatim>\<open>SamplePeers\<close>) and the bencode encoder, and answers
  on its \<^verbatim>\<open>http.ResponseWriter\<close>. The datastore, the policy and the encoder are interface
  values or library functions whose code is elsewhere: they are parameters of the model.
  The functions of Go's standard library that the handler calls (\<^verbatim>\<open>strconv.ParseInt\<close>,
  \<^verbatim>\<open>strconv.ParseUint\<close>, \<^verbatim>\<open>hex.EncodeToString\<close>, \<^verbatim>\<open>url.Values.Get\<close>, \<^verbatim>\<open>http.Error\<close>,
  \<^verbatim>\<open>net.IP.String\<close>) are written out as the library defines them. Log statements are
  left out: they change nothing the handler returns or calls. A call of a collaborator
  is taken to return, and a write on the response writer to succeed (the handler ignores
  what \<^verbatim>\<open>http.Error\<close> could report); the one panic the handler's own code can raise, the
  dereference of a nil pointer, is a branch of the model.
\<close>

subsection \<open>Errors\<close>

text \<open>
  \<^verbatim>\<open>strconv.ErrSyntax\<close> and \<^verbatim>\<open>strconv.ErrRange\<close>, and the \<^verbatim>\<open>*strconv.NumError\<close> that wraps
  them with the function name and the input. An error of a collaborator is opaque: the
  handler only ever calls its \<^verbatim>\<open>Error()\<close> method, so it is modelled by that text.
\<close>

datatype strconv_err = ErrSyntax | ErrRange

datatype error =
    NumError string string strconv_err
  | OtherError string

subsection \<open>strconv.ParseUint and strconv.ParseInt, base 10\<close>

type_synonym uint64 = "64 word"
type_synonym int64 = "64 word"
type_synonym int32 = "32 word"
type_synonym byte = "8 word"

text \<open>
  The handler always passes base 10, so of \<^verbatim>\<open>ParseUint\<close>'s digit switch remains: a byte
  in \<^verbatim>\<open>'0'..'9'\<close> is a digit, a letter has a value of at least 10 (not below the base) and
  anything else is no digit; both are syntax errors. \<^verbatim>\<open>cutoff\<close> is \<^verbatim>\<open>maxUint64/10 + 1\<close> and
  \<^verbatim>\<open>maxVal\<close> is \<^verbatim>\<open>1<<bitSize - 1\<close>, computed in \<^verbatim>\<open>uint64\<close> (so \<^verbatim>\<open>1<<64\<close> is 0).
\<close>

definition maxUint64 :: uint64 where
  "maxUint64 = 18446744073709551615"

definition cutoff10 :: uint64 where
  "cutoff10 = maxUint64 div 10 + 1"

definition maxVal :: "nat \<Rightarrow> uint64" where
  "maxVal bitSize = push_bit bitSize 1 - 1"

definition is_digit :: "char \<Rightarrow> bool" where
  "is_digit c = ((of_char CHR ''0'' :: nat) \<le> of_char c \<and> (of_char c :: nat) \<le> of_char CHR ''9'')"

definition digit_val :: "char \<Rightarrow> uint64" where
  "digit_val c = of_nat (of_char c - of_char CHR ''0'')"

text \<open>
  The loop of \<^verbatim>\<open>ParseUint\<close> over the bytes of the string: \<^verbatim>\<open>n\<close> is the value so far.
  It returns the value and the kind of error, as the Go function returns
  \<^verbatim>\<open>(uint64, error)\<close>.
\<close>

fun ParseUint_loop :: "nat \<Rightarrow> uint64 \<Rightarrow> string \<Rightarrow> uint64 \<times> strconv_err option" where
  "ParseUint_loop bitSize n [] = (n, None)"
| "ParseUint_loop bitSize n (c # cs) =
     (if \<not> is_digit c then (0, Some ErrSyntax)
      else if n \<ge> cutoff10 then (maxVal bitSize, Some ErrRange)
      else
        let n' = n * 10;
            n1 = n' + digit_val c
        in if n1 < n' \<or> n1 > maxVal bitSize then (maxVal bitSize, Some ErrRange)
           else ParseUint_loop bitSize n1 cs)"

definition ParseUint :: "string \<Rightarrow> nat \<Rightarrow> uint64 \<times> error option" where
  "ParseUint s bitSize =
     (if s = [] then (0, Some (NumError ''ParseUint'' s ErrSyntax))
      else case ParseUint_loop bitSize 0 s of
             (n, None) \<Rightarrow> (n, None)
           | (n, Some e) \<Rightarrow> (n, Some (NumError ''ParseUint'' s e)))"

text \<open>
  \<^verbatim>\<open>ParseInt\<close> picks off a leading sign, converts the rest with \<^verbatim>\<open>ParseUint\<close> and checks
  the range: a syntax error is returned at once under \<^verbatim>\<open>ParseInt\<close>'s name, a range
  error of \<^verbatim>\<open>ParseUint\<close> falls through to the cutoff tests with the value \<^verbatim>\<open>maxVal\<close>.
  \<^verbatim>\<open>int64(un)\<close> keeps the bits, and \<^verbatim>\<open>-n\<close> is negation in 64 bits.
\<close>

definition ParseInt :: "string \<Rightarrow> nat \<Rightarrow> int64 \<times> error option" where
  "ParseInt s bitSize =
     (if s = [] then (0, Some (NumError ''ParseInt'' s ErrSyntax))
      else
        let s0 = s;
            neg = (hd s = CHR ''-'');
            s' = (if hd s = CHR ''+'' \<or> hd s = CHR ''-'' then tl s else s)
        in case ParseUint s' bitSize of
             (un, Some (NumError f x ErrSyntax)) \<Rightarrow> (0, Some (NumError ''ParseInt'' s0 ErrSyntax))
           | (un, _) \<Rightarrow>
               let cutoff = (push_bit (bitSize - 1) 1 :: uint64)
               in if \<not> neg \<and> un \<ge> cutoff then (cutoff - 1, Some (NumError ''ParseInt'' s0 ErrRange))
                  else if neg \<and> un > cutoff then (- cutoff, Some (NumError ''ParseInt'' s0 ErrRange))
                  else (if neg then - un else un, None))"

subsection \<open>Query values, hex encoding, IPv4 addresses\<close>

text \<open>
  \<^verbatim>\<open>url.Values\<close> is a \<^verbatim>\<open>map[string][]string\<close>; \<^verbatim>\<open>Get\<close> returns the first value of the
  key, or the empty string when the key is absent or has no value.
\<close>

type_synonym Values = "(string \<times> string list) list"

definition Get :: "Values \<Rightarrow> string \<Rightarrow> string" where
  "Get v key =
     (case map_of v key of
        None \<Rightarrow> []
      | Some [] \<Rightarrow> []
      | Some (x # xs) \<Rightarrow> x)"

text \<open>\<^verbatim>\<open>hex.EncodeToString\<close>: two digits of \<^verbatim>\<open>hextable\<close> for every byte.\<close>

definition hextable :: string where
  "hextable = ''0123456789abcdef''"

definition EncodeToString :: "string \<Rightarrow> string" where
  "EncodeToString src =
     concat (map (\<lambda>v. [hextable ! (of_char v div 16), hextable ! (of_char v mod 16)]) src)"

text \<open>
  Modelled from the spec: \<^verbatim>\<open>utils.Int32toIP\<close>, a helper of this repository whose file is
  not among the sources. The spec describes it as the standard IPv4 integer decoding, in
  network byte order, to 4 octets: the 32 bits of the integer, most significant byte
  first.
\<close>

type_synonym IP = "byte \<times> byte \<times> byte \<times> byte"

definition Int32toIP :: "int32 \<Rightarrow> IP" where
  "Int32toIP i32 =
     (ucast (drop_bit 24 i32), ucast (drop_bit 16 i32), ucast (drop_bit 8 i32), ucast i32)"

text \<open>
  \<^verbatim>\<open>net.IP.String\<close> on a 4-byte address: the four bytes in decimal, joined by dots.
  \<^verbatim>\<open>ubtoa\<close> is the library's byte-to-decimal conversion, with its three cases.
\<close>

definition ubtoa :: "byte \<Rightarrow> string" where
  "ubtoa v =
     (if v < 10 then [char_of (unat v + 48)]
      else if v < 100 then [char_of (unat v div 10 + 48), char_of (unat v mod 10 + 48)]
      else [char_of (unat v div 100 + 48), char_of ((unat v div 10) mod 10 + 48),
            char_of (unat v mod 10 + 48)])"

definition IP_String :: "IP \<Rightarrow> string" where
  "IP_String ip =
     (case ip of (a, b, c, d) \<Rightarrow> ubtoa a @ ''.'' @ ubtoa b @ ''.'' @ ubtoa c @ ''.'' @ ubtoa d)"

subsection \<open>The peer record and the response\<close>

text \<open>
  \<^verbatim>\<open>storage.PeerInfo\<close> is declared in another package. The record below is read off the
  composite literal of the handler (lines 138 to 149), which names nine fields and fixes
  their types by the values it assigns: strings, the \<^verbatim>\<open>int64\<close> results of \<^verbatim>\<open>ParseInt\<close>,
  and \<^verbatim>\<open>int64(peerBytesLeft)\<close>. The field tags of the declaration, which tell an encoder
  what to write of a record, are not in the handler.
\<close>

record PeerInfo =
  InfoHash :: string
  PeerID :: string
  IP :: string
  Port :: int64
  DC :: string
  BytesUploaded :: int64
  BytesDownloaded :: int64
  BytesLeft :: int64
  Event :: string

record AnnouncerResponse =
  Interval :: int64
  Peers :: "PeerInfo list"

subsection \<open>The response writer\<close>

text \<open>
  An \<^verbatim>\<open>http.ResponseWriter\<close>, by the contract net/http documents for it: the header map
  can be changed until the header is written; \<^verbatim>\<open>WriteHeader\<close> sends the status code with
  the header map as it is then, and only the first call counts; \<^verbatim>\<open>Write\<close> first calls
  \<^verbatim>\<open>WriteHeader(200)\<close> when no header was written yet. What is written is kept in chunks:
  raw bytes of the encoder, or a line holding the text of an error, which
  \<^verbatim>\<open>http.Error\<close> prints with \<^verbatim>\<open>fmt.Fprintln\<close>. The text of an error is kept as the error
  itself (\<^verbatim>\<open>err.Error()\<close>), or as the error under a prefix
  (\<^verbatim>\<open>fmt.Sprintf("%s: %v", msg, err)\<close>).
\<close>

datatype message = ErrorText error | Sprintf_s_v string error

datatype chunk = Raw string | Line message

record ResponseWriter =
  Header :: "(string \<times> string) list"
  sent :: "(nat \<times> (string \<times> string) list) option"
  body :: "chunk list"

definition Header_Set :: "string \<Rightarrow> string \<Rightarrow> ResponseWriter \<Rightarrow> ResponseWriter" where
  "Header_Set k v w = w\<lparr>Header := AList.update k v (Header w)\<rparr>"

definition WriteHeader :: "nat \<Rightarrow> ResponseWriter \<Rightarrow> ResponseWriter" where
  "WriteHeader code w = (if sent w = None then w\<lparr>sent := Some (code, Header w)\<rparr> else w)"

definition Write :: "chunk \<Rightarrow> ResponseWriter \<Rightarrow> ResponseWriter" where
  "Write c w = (let w' = WriteHeader 200 w in w'\<lparr>body := body w' @ [c]\<rparr>)"

definition StatusInternalServerError :: nat where
  "StatusInternalServerError = 500"

text \<open>\<^verbatim>\<open>http.Error(w, error, code)\<close>.\<close>

definition http_Error :: "ResponseWriter \<Rightarrow> message \<Rightarrow> nat \<Rightarrow> ResponseWriter" where
  "http_Error w err code =
     Write (Line err)
       (WriteHeader code
         (Header_Set ''X-Content-Type-Options'' ''nosniff''
           (Header_Set ''Content-Type'' ''text/plain; charset=utf-8'' w)))"

text \<open>
  The status code of the response: the one sent with the header; a handler that returns
  without writing anything leaves the server to answer 200.
\<close>

definition status_code :: "ResponseWriter \<Rightarrow> nat" where
  "status_code w = (case sent w of None \<Rightarrow> 200 | Some (code, h) \<Rightarrow> code)"

subsection \<open>The collaborators\<close>

text \<open>
  The datastore and the policy are interface values of the web application. Each method
  is a function of its arguments and of the state \<^typ>\<open>'s\<close> of everything outside the
  handler; it returns what the Go method returns, and the new state. The peer lists are
  slices of pointers (\<^verbatim>\<open>[]*storage.PeerInfo\<close>): an element is \<^term>\<open>None\<close> for a nil
  pointer and \<^term>\<open>Some p\<close> for a pointer to the record \<open>p\<close>.
  \<^verbatim>\<open>AssignPeerPriority\<close> returns one error and works on the slice it is given: the
  model's function returns the elements as the call leaves them.
\<close>

record 's webAppStruct =
  AnnounceInterval :: int64
  datastore_Update :: "PeerInfo \<Rightarrow> 's \<Rightarrow> error option \<times> 's"
  datastore_Read :: "string \<Rightarrow> 's \<Rightarrow> PeerInfo option list \<times> error option \<times> 's"
  policy_AssignPeerPriority ::
    "string \<Rightarrow> string \<Rightarrow> PeerInfo option list \<Rightarrow> 's \<Rightarrow> PeerInfo option list \<times> error option \<times> 's"
  policy_SamplePeers ::
    "PeerInfo option list \<Rightarrow> nat \<Rightarrow> 's \<Rightarrow> PeerInfo option list \<times> error option \<times> 's"

text \<open>
  A callee receives the slice header by value: it can overwrite the elements of the
  caller's slice, and cannot change its length. \<open>in_place old new\<close> is the caller's
  slice after a call that left the elements \<open>new\<close>.
\<close>

definition in_place :: "'a list \<Rightarrow> 'a list \<Rightarrow> 'a list" where
  "in_place old new = take (length old) new @ drop (length new) old"

text \<open>
  \<^verbatim>\<open>bencode.Marshal(w, val)\<close> sees the response writer as an \<^verbatim>\<open>io.Writer\<close>: all it can do
  with it is call \<^verbatim>\<open>Write\<close>. The encoder is a function from the value to the byte
  strings of its successive \<^verbatim>\<open>Write\<close> calls and the error it returns.
\<close>

type_synonym encoder = "AnnouncerResponse \<Rightarrow> string list \<times> error option"

definition write_all :: "string list \<Rightarrow> ResponseWriter \<Rightarrow> ResponseWriter" where
  "write_all bss w = foldl (\<lambda>w bs. Write (Raw bs) w) w bss"

text \<open>The calls the handler makes on its collaborators, in the order it makes them.\<close>

datatype call =
    Call_Update PeerInfo
  | Call_Read string
  | Call_AssignPeerPriority string string "PeerInfo option list"
  | Call_SamplePeers "PeerInfo option list" nat
  | Call_Marshal AnnouncerResponse

subsection \<open>GetAnnounceHandler\<close>

record Request =
  Host :: string
  RemoteAddr :: string
  Query :: Values

text \<open>
  What one run of the handler leaves: the response writer, the state of the
  collaborators, the calls made, and whether the run ended in a panic (the
  dereference \<^verbatim>\<open>*p\<close> of a nil pointer in the loop before encoding).
\<close>

record 's result =
  writer :: ResponseWriter
  store :: 's
  calls :: "call list"
  panicked :: bool

definition GetAnnounceHandler ::
    "encoder \<Rightarrow> 's webAppStruct \<Rightarrow> ResponseWriter \<Rightarrow> Request \<Rightarrow> 's \<Rightarrow> 's result" where
  "GetAnnounceHandler Marshal webApp w r s =
    (let queryValues = Query r;
         infoHash = EncodeToString (Get queryValues ''info_hash'');
         peerID = EncodeToString (Get queryValues ''peer_id'');
         peerPortStr = Get queryValues ''port'';
         peerIPStr = Get queryValues ''ip'';
         peerDC = Get queryValues ''dc'';
         peerBytesDownloadedStr = Get queryValues ''downloaded'';
         peerBytesUploadedStr = Get queryValues ''uploaded'';
         peerBytesLeftStr = Get queryValues ''left'';
         peerEvent = Get queryValues ''event'';
         ret = ParseInt peerPortStr 64; peerPort = fst ret; err = snd ret
     in
     if err \<noteq> None then
       \<lparr>writer = http_Error w (ErrorText (the err)) StatusInternalServerError,
        store = s, calls = [], panicked = False\<rparr>
     else
     let ret = ParseInt peerIPStr 32; peerIPInt32 = fst ret; err = snd ret in
     if err \<noteq> None then
       \<lparr>writer = http_Error w (ErrorText (the err)) StatusInternalServerError,
        store = s, calls = [], panicked = False\<rparr>
     else
     let ret = ParseInt peerBytesDownloadedStr 64; peerBytesDownloaded = fst ret; err = snd ret in
     if err \<noteq> None then
       \<lparr>writer = http_Error w (ErrorText (the err)) StatusInternalServerError,
        store = s, calls = [], panicked = False\<rparr>
     else
     let ret = ParseInt peerBytesUploadedStr 64; peerBytesUploaded = fst ret; err = snd ret in
     if err \<noteq> None then
       \<lparr>writer = http_Error w (ErrorText (the err)) StatusInternalServerError,
        store = s, calls = [], panicked = False\<rparr>
     else
     let ret = ParseUint peerBytesLeftStr 64; peerBytesLeft = fst ret; err = snd ret in
     if err \<noteq> None then
       \<lparr>writer = http_Error w (ErrorText (the err)) StatusInternalServerError,
        store = s, calls = [], panicked = False\<rparr>
     else
     let peerIP = IP_String (Int32toIP (ucast peerIPInt32));
         peer = \<lparr>InfoHash = infoHash, PeerID = peerID, IP = peerIP, Port = peerPort,
                 DC = peerDC, BytesUploaded = peerBytesUploaded,
                 BytesDownloaded = peerBytesDownloaded, BytesLeft = peerBytesLeft,
                 Event = peerEvent\<rparr>;
         ret = datastore_Update webApp peer s; err = fst ret; s1 = snd ret;
         c1 = [Call_Update peer]
     in
     if err \<noteq> None then
       \<lparr>writer = http_Error w (ErrorText (the err)) StatusInternalServerError,
        store = s1, calls = c1, panicked = False\<rparr>
     else
     let ret = datastore_Read webApp infoHash s1;
         peerInfos = fst ret; err = fst (snd ret); s2 = snd (snd ret);
         c2 = c1 @ [Call_Read infoHash]
     in
     if err \<noteq> None then
       \<lparr>writer = http_Error w (ErrorText (the err)) StatusInternalServerError,
        store = s2, calls = c2, panicked = False\<rparr>
     else
     let ret = policy_AssignPeerPriority webApp peerIP peerDC peerInfos s2;
         err = fst (snd ret); s3 = snd (snd ret);
         c3 = c2 @ [Call_AssignPeerPriority peerIP peerDC peerInfos];
         peerInfos = in_place peerInfos (fst ret)
     in
     if err \<noteq> None then
       \<lparr>writer = http_Error w (ErrorText (the err)) StatusInternalServerError,
        store = s3, calls = c3, panicked = False\<rparr>
     else
     let ret = policy_SamplePeers webApp peerInfos (length peerInfos) s3;
         c4 = c3 @ [Call_SamplePeers peerInfos (length peerInfos)];
         peerInfos = fst ret; err = fst (snd ret); s4 = snd (snd ret)
     in
     if err \<noteq> None then
       \<lparr>writer = http_Error w
                   (Sprintf_s_v ''Could not apply peer handout sampling policy'' (the err))
                   StatusInternalServerError,
        store = s4, calls = c4, panicked = False\<rparr>
     else
     let w1 = Header_Set ''Content-Type'' ''text/html; charset=utf-8'' w in
     if None \<in> set peerInfos then
       \<lparr>writer = w1, store = s4, calls = c4, panicked = True\<rparr>
     else
     let derefPeerInfos = map the peerInfos;
         response = \<lparr>Interval = AnnounceInterval webApp, Peers = derefPeerInfos\<rparr>;
         ret = Marshal response; w2 = write_all (fst ret) w1; err = snd ret;
         c5 = c4 @ [Call_Marshal response]
     in
     if err \<noteq> None then
       \<lparr>writer = http_Error w2 (ErrorText (the err)) StatusInternalServerError,
        store = s4, calls = c5, panicked = False\<rparr>
     else
       \<lparr>writer = w2, store = s4, calls = c5, panicked = False\<rparr>)"

subsection \<open>The stages of one run\<close>

text \<open>
  Names for what the handler computes on its way, used to state the properties: the
  validation it performs, the record it builds, and what each collaborator returns in
  the run that starts in state \<open>s\<close>. The lemmas of the next section show that the
  handler is made of exactly these.
\<close>

definition well_formed :: "Request \<Rightarrow> bool" where
  "well_formed r =
     (snd (ParseInt (Get (Query r) ''port'') 64) = None \<and>
      snd (ParseInt (Get (Query r) ''ip'') 32) = None \<and>
      snd (ParseInt (Get (Query r) ''downloaded'') 64) = None \<and>
      snd (ParseInt (Get (Query r) ''uploaded'') 64) = None \<and>
      snd (ParseUint (Get (Query r) ''left'') 64) = None)"

definition validation_error :: "Request \<Rightarrow> error option" where
  "validation_error r =
     (if snd (ParseInt (Get (Query r) ''port'') 64) \<noteq> None
      then snd (ParseInt (Get (Query r) ''port'') 64)
      else if snd (ParseInt (Get (Query r) ''ip'') 32) \<noteq> None
      then snd (ParseInt (Get (Query r) ''ip'') 32)
      else if snd (ParseInt (Get (Query r) ''downloaded'') 64) \<noteq> None
      then snd (ParseInt (Get (Query r) ''downloaded'') 64)
      else if snd (ParseInt (Get (Query r) ''uploaded'') 64) \<noteq> None
      then snd (ParseInt (Get (Query r) ''uploaded'') 64)
      else snd (ParseUint (Get (Query r) ''left'') 64))"

definition peer_of :: "Request \<Rightarrow> PeerInfo" where
  "peer_of r =
     \<lparr>InfoHash = EncodeToString (Get (Query r) ''info_hash''),
      PeerID = EncodeToString (Get (Query r) ''peer_id''),
      IP = IP_String (Int32toIP (ucast (fst (ParseInt (Get (Query r) ''ip'') 32)))),
      Port = fst (ParseInt (Get (Query r) ''port'') 64),
      DC = Get (Query r) ''dc'',
      BytesUploaded = fst (ParseInt (Get (Query r) ''uploaded'') 64),
      BytesDownloaded = fst (ParseInt (Get (Query r) ''downloaded'') 64),
      BytesLeft = fst (ParseUint (Get (Query r) ''left'') 64),
      Event = Get (Query r) ''event''\<rparr>"

definition Update_ret :: "'s webAppStruct \<Rightarrow> Request \<Rightarrow> 's \<Rightarrow> error option \<times> 's" where
  "Update_ret webApp r s = datastore_Update webApp (peer_of r) s"

definition Read_ret ::
    "'s webAppStruct \<Rightarrow> Request \<Rightarrow> 's \<Rightarrow> PeerInfo option list \<times> error option \<times> 's" where
  "Read_ret webApp r s =
     datastore_Read webApp (InfoHash (peer_of r)) (snd (Update_ret webApp r s))"

definition Assign_ret ::
    "'s webAppStruct \<Rightarrow> Request \<Rightarrow> 's \<Rightarrow> PeerInfo option list \<times> error option \<times> 's" where
  "Assign_ret webApp r s =
     policy_AssignPeerPriority webApp (IP (peer_of r)) (DC (peer_of r))
       (fst (Read_ret webApp r s)) (snd (snd (Read_ret webApp r s)))"

definition prioritized :: "'s webAppStruct \<Rightarrow> Request \<Rightarrow> 's \<Rightarrow> PeerInfo option list" where
  "prioritized webApp r s = in_place (fst (Read_ret webApp r s)) (fst (Assign_ret webApp r s))"

definition Sample_ret ::
    "'s webAppStruct \<Rightarrow> Request \<Rightarrow> 's \<Rightarrow> PeerInfo option list \<times> error option \<times> 's" where
  "Sample_ret webApp r s =
     policy_SamplePeers webApp (prioritized webApp r s) (length (prioritized webApp r s))
       (snd (snd (Assign_ret webApp r s)))"

definition response_of :: "'s webAppStruct \<Rightarrow> Request \<Rightarrow> 's \<Rightarrow> AnnouncerResponse" where
  "response_of webApp r s =
     \<lparr>Interval = AnnounceInterval webApp, Peers = map the (fst (Sample_ret webApp r s))\<rparr>"

text \<open>The calls of a run in which no stage fails.\<close>

definition all_calls :: "'s webAppStruct \<Rightarrow> Request \<Rightarrow> 's \<Rightarrow> call list" where
  "all_calls webApp r s =
     [Call_Update (peer_of r),
      Call_Read (InfoHash (peer_of r)),
      Call_AssignPeerPriority (IP (peer_of r)) (DC (peer_of r)) (fst (Read_ret webApp r s)),
      Call_SamplePeers (prioritized webApp r s) (length (prioritized webApp r s)),
      Call_Marshal (response_of webApp r s)]"




fun is_Update :: "call \<Rightarrow> bool" where
  "is_Update (Call_Update p) = True"
| "is_Update c = False"


fun is_Read :: "call \<Rightarrow> bool" where
  "is_Read (Call_Read h) = True"
| "is_Read c = False"

fun is_AssignPeerPriority :: "call \<Rightarrow> bool" where
  "is_AssignPeerPriority (Call_AssignPeerPriority ip dc ps) = True"
| "is_AssignPeerPriority c = False"

fun is_SamplePeers :: "call \<Rightarrow> bool" where
  "is_SamplePeers (Call_SamplePeers ps n) = True"
| "is_SamplePeers c = False"

text \<open>The nine query parameters the handler reads.\<close>

definition announce_keys :: "string list" where
  "announce_keys =
     [''info_hash'', ''peer_id'', ''port'', ''ip'', ''dc'', ''downloaded'', ''uploaded'',
      ''left'', ''event'']"

subsection \<open>Dotted decimal, in the words of the specification\<close>

text \<open>
  The specification asks for the dotted-decimal form of the address: the four octets of
  the 32-bit integer in network byte order (most significant first), each written as a
  decimal number, joined by dots. \<open>decimal\<close> is the usual decimal numeral of a natural
  number; \<open>dotted_decimal\<close> takes the unsigned value of the 32 bits.
\<close>

function decimal :: "nat \<Rightarrow> string" where
  "decimal n =
     (if n < 10 then [char_of (n + 48)] else decimal (n div 10) @ [char_of (n mod 10 + 48)])"
  by pat_completeness auto
termination
  by (relation "measure (\<lambda>n. n)") auto

definition dotted_decimal :: "nat \<Rightarrow> string" where
  "dotted_decimal n =
     decimal (n div 2 ^ 24 mod 256) @ ''.'' @ decimal (n div 2 ^ 16 mod 256) @ ''.'' @
     decimal (n div 2 ^ 8 mod 256) @ ''.'' @ decimal (n mod 256)"

subsection \<open>Test doubles and example requests\<close>

text \<open>
  An in-memory datastore and a trivial policy, for the examples: the state is the list
  of stored records; \<^verbatim>\<open>Update\<close> replaces the record of the same torrent and peer,
  \<^verbatim>\<open>Read\<close> returns the records of a torrent, the priority policy leaves the peers as
  they are and sampling takes the first \<open>limit\<close> of them. The number \<open>n\<close> chooses the
  collaborator that fails: 1 \<^verbatim>\<open>Update\<close>, 2 \<^verbatim>\<open>Read\<close>, 3 \<^verbatim>\<open>AssignPeerPriority\<close>,
  4 \<^verbatim>\<open>SamplePeers\<close>; any other number, none.
\<close>

definition memory_app :: "nat \<Rightarrow> PeerInfo list webAppStruct" where
  "memory_app n =
     \<lparr>AnnounceInterval = 3,
      datastore_Update = (\<lambda>p s.
        if n = 1 then (Some (OtherError ''update failed''), s)
        else (None, p # filter (\<lambda>q. InfoHash q \<noteq> InfoHash p \<or> PeerID q \<noteq> PeerID p) s)),
      datastore_Read = (\<lambda>h s.
        if n = 2 then ([], Some (OtherError ''read failed''), s)
        else (map Some (filter (\<lambda>q. InfoHash q = h) s), None, s)),
      policy_AssignPeerPriority = (\<lambda>ip dc ps s.
        if n = 3 then (ps, Some (OtherError ''priority failed''), s) else (ps, None, s)),
      policy_SamplePeers = (\<lambda>ps limit s.
        if n = 4 then ([], Some (OtherError ''sampling failed''), s)
        else (take limit ps, None, s))\<rparr>"

text \<open>
  An encoder that writes \<open>bss\<close> and returns \<open>err\<close>, whatever the value.
\<close>

definition const_encoder :: "string list \<Rightarrow> error option \<Rightarrow> encoder" where
  "const_encoder bss err = (\<lambda>response. (bss, err))"

definition new_writer :: ResponseWriter where
  "new_writer = \<lparr>Header = [], sent = None, body = []\<rparr>"

text \<open>
  The scenario of the specification: \<^verbatim>\<open>info_hash=AB\<close>, \<^verbatim>\<open>peer_id=CD\<close>, \<^verbatim>\<open>port=6881\<close>,
  \<^verbatim>\<open>ip=2130706433\<close>, \<^verbatim>\<open>downloaded=0\<close>, \<^verbatim>\<open>uploaded=0\<close>, \<^verbatim>\<open>left=1000\<close>, \<^verbatim>\<open>event=started\<close>;
  \<open>request_with k v\<close> is the same request with the parameter \<open>k\<close> set to \<open>v\<close>.
\<close>

definition scenario_query :: Values where
  "scenario_query =
     [(''info_hash'', [''AB'']), (''peer_id'', [''CD'']), (''port'', [''6881'']),
      (''ip'', [''2130706433'']), (''dc'', [''sjc1'']), (''downloaded'', [''0'']),
      (''uploaded'', [''0'']), (''left'', [''1000'']), (''event'', [''started''])]"

definition request_with :: "string \<Rightarrow> string \<Rightarrow> Request" where
  "request_with k v =
     \<lparr>Host = ''tracker'', RemoteAddr = ''10.0.0.7:4242'',
      Query = AList.update k [v] scenario_query\<rparr>"

text \<open>The record of the scenario, as the handler builds it.\<close>

definition scenario_peer :: PeerInfo where
  "scenario_peer =
     \<lparr>InfoHash = ''4142'', PeerID = ''4344'', IP = ''127.0.0.1'', Port = 6881, DC = ''sjc1'',
      BytesUploaded = 0, BytesDownloaded = 0, BytesLeft = 1000, Event = ''started''\<rparr>"

text \<open>
  The scenario's request without the parameter \<open>k\<close>, and a second peer of the same
  torrent, already in the datastore.
\<close>

definition request_without :: "string \<Rightarrow> Request" where
  "request_without k =
     \<lparr>Host = ''tracker'', RemoteAddr = ''10.0.0.7:4242'',
      Query = AList.delete k scenario_query\<rparr>"

definition other_peer :: PeerInfo where
  "other_peer =
     \<lparr>InfoHash = ''4142'', PeerID = ''4545'', IP = ''10.0.0.9'', Port = 6882, DC = ''dca1'',
      BytesUploaded = 10, BytesDownloaded = 20, BytesLeft = 30, Event = []\<rparr>"

section \<open>The handler, path by path\<close>

text \<open>
  A parse error names the function and the input, so the text of a validation failure
  identifies the value that did not parse.
\<close>

lemma ParseUint_error:
  "snd (ParseUint x bitSize) = Some e \<Longrightarrow> \<exists>k. e = NumError ''ParseUint'' x k"
  by (auto simp: ParseUint_def split: if_splits prod.splits option.splits)

lemma ParseInt_error:
  "snd (ParseInt x bitSize) = Some e \<Longrightarrow> \<exists>k. e = NumError ''ParseInt'' x k"
  by (auto simp: ParseInt_def Let_def
      split: if_splits prod.splits option.splits error.splits strconv_err.splits)

lemma first_error:
  fixes a b c d e :: "'a option"
  assumes "\<not> (a = None \<and> b = None \<and> c = None \<and> d = None \<and> e = None)"
  shows "\<exists>x. (if a \<noteq> None then a else if b \<noteq> None then b else if c \<noteq> None then c
               else if d \<noteq> None then d else e) = Some x
           \<and> (a = Some x \<or> b = Some x \<or> c = Some x \<or> d = Some x \<or> e = Some x)"
  using assms by (cases a; cases b; cases c; cases d; cases e) simp_all

lemma validation_error_form:
  assumes "\<not> well_formed r"
  shows "\<exists>f x k. validation_error r = Some (NumError f x k)"
proof -
  from first_error [OF assms [unfolded well_formed_def]]
  obtain e where e: "validation_error r = Some e"
    and "(\<exists>x b. snd (ParseInt x b) = Some e) \<or> (\<exists>x b. snd (ParseUint x b) = Some e)"
    unfolding validation_error_def by blast
  then have "\<exists>f x k. e = NumError f x k"
    using ParseInt_error ParseUint_error by blast
  with e show ?thesis by blast
qed

text \<open>
  One lemma for every way through the handler: the result of the run, given which
  stage fails first.
\<close>

lemma handler_invalid:
  assumes "\<not> well_formed r"
  shows "GetAnnounceHandler Marshal webApp w r s =
    \<lparr>writer = http_Error w (ErrorText (the (validation_error r))) StatusInternalServerError,
     store = s, calls = [], panicked = False\<rparr>"
proof (cases "snd (ParseInt (Get (Query r) ''port'') 64)")
  case (Some e)
  then show ?thesis by (simp add: GetAnnounceHandler_def Let_def validation_error_def)
next
  case a: None
  show ?thesis
  proof (cases "snd (ParseInt (Get (Query r) ''ip'') 32)")
    case (Some e)
    with a show ?thesis by (simp add: GetAnnounceHandler_def Let_def validation_error_def)
  next
    case b: None
    show ?thesis
    proof (cases "snd (ParseInt (Get (Query r) ''downloaded'') 64)")
      case (Some e)
      with a b show ?thesis by (simp add: GetAnnounceHandler_def Let_def validation_error_def)
    next
      case c: None
      show ?thesis
      proof (cases "snd (ParseInt (Get (Query r) ''uploaded'') 64)")
        case (Some e)
        with a b c show ?thesis
          by (simp add: GetAnnounceHandler_def Let_def validation_error_def)
      next
        case d: None
        with assms a b c obtain e where "snd (ParseUint (Get (Query r) ''left'') 64) = Some e"
          by (auto simp: well_formed_def)
        with a b c d show ?thesis
          by (simp add: GetAnnounceHandler_def Let_def validation_error_def)
      qed
    qed
  qed
qed

lemma handler_Update_fails:
  assumes "well_formed r" and "fst (Update_ret webApp r s) = Some e"
  shows "GetAnnounceHandler Marshal webApp w r s =
    \<lparr>writer = http_Error w (ErrorText e) StatusInternalServerError,
     store = snd (Update_ret webApp r s), calls = take 1 (all_calls webApp r s),
     panicked = False\<rparr>"
  using assms(2) assms(1) [unfolded well_formed_def]
  by (simp add: GetAnnounceHandler_def Let_def Update_ret_def peer_of_def all_calls_def)

lemma handler_Read_fails:
  assumes "well_formed r" and "fst (Update_ret webApp r s) = None"
    and "fst (snd (Read_ret webApp r s)) = Some e"
  shows "GetAnnounceHandler Marshal webApp w r s =
    \<lparr>writer = http_Error w (ErrorText e) StatusInternalServerError,
     store = snd (snd (Read_ret webApp r s)), calls = take 2 (all_calls webApp r s),
     panicked = False\<rparr>"
  using assms(2,3) assms(1) [unfolded well_formed_def]
  by (simp add: GetAnnounceHandler_def Let_def Update_ret_def Read_ret_def peer_of_def
      all_calls_def)

lemma handler_Assign_fails:
  assumes "well_formed r" and "fst (Update_ret webApp r s) = None"
    and "fst (snd (Read_ret webApp r s)) = None"
    and "fst (snd (Assign_ret webApp r s)) = Some e"
  shows "GetAnnounceHandler Marshal webApp w r s =
    \<lparr>writer = http_Error w (ErrorText e) StatusInternalServerError,
     store = snd (snd (Assign_ret webApp r s)), calls = take 3 (all_calls webApp r s),
     panicked = False\<rparr>"
  using assms(2-) assms(1) [unfolded well_formed_def]
  by (simp add: GetAnnounceHandler_def Let_def Update_ret_def Read_ret_def Assign_ret_def
      peer_of_def all_calls_def)

lemma handler_Sample_fails:
  assumes "well_formed r" and "fst (Update_ret webApp r s) = None"
    and "fst (snd (Read_ret webApp r s)) = None"
    and "fst (snd (Assign_ret webApp r s)) = None"
    and "fst (snd (Sample_ret webApp r s)) = Some e"
  shows "GetAnnounceHandler Marshal webApp w r s =
    \<lparr>writer = http_Error w
                (Sprintf_s_v ''Could not apply peer handout sampling policy'' e)
                StatusInternalServerError,
     store = snd (snd (Sample_ret webApp r s)), calls = take 4 (all_calls webApp r s),
     panicked = False\<rparr>"
  using assms(2-) assms(1) [unfolded well_formed_def]
  by (simp add: GetAnnounceHandler_def Let_def Update_ret_def Read_ret_def Assign_ret_def
      Sample_ret_def prioritized_def peer_of_def all_calls_def)

lemma handler_panics:
  assumes "well_formed r" and "fst (Update_ret webApp r s) = None"
    and "fst (snd (Read_ret webApp r s)) = None"
    and "fst (snd (Assign_ret webApp r s)) = None"
    and "fst (snd (Sample_ret webApp r s)) = None"
    and "None \<in> set (fst (Sample_ret webApp r s))"
  shows "GetAnnounceHandler Marshal webApp w r s =
    \<lparr>writer = Header_Set ''Content-Type'' ''text/html; charset=utf-8'' w,
     store = snd (snd (Sample_ret webApp r s)), calls = take 4 (all_calls webApp r s),
     panicked = True\<rparr>"
  using assms(2-) assms(1) [unfolded well_formed_def]
  by (simp add: GetAnnounceHandler_def Let_def Update_ret_def Read_ret_def Assign_ret_def
      Sample_ret_def prioritized_def peer_of_def all_calls_def)

lemma handler_Marshal_fails:
  assumes "well_formed r" and "fst (Update_ret webApp r s) = None"
    and "fst (snd (Read_ret webApp r s)) = None"
    and "fst (snd (Assign_ret webApp r s)) = None"
    and "fst (snd (Sample_ret webApp r s)) = None"
    and "None \<notin> set (fst (Sample_ret webApp r s))"
    and "snd (Marshal (response_of webApp r s)) = Some e"
  shows "GetAnnounceHandler Marshal webApp w r s =
    \<lparr>writer = http_Error
                (write_all (fst (Marshal (response_of webApp r s)))
                   (Header_Set ''Content-Type'' ''text/html; charset=utf-8'' w))
                (ErrorText e) StatusInternalServerError,
     store = snd (snd (Sample_ret webApp r s)), calls = all_calls webApp r s,
     panicked = False\<rparr>"
  using assms(2-) assms(1) [unfolded well_formed_def]
  by (simp add: GetAnnounceHandler_def Let_def Update_ret_def Read_ret_def Assign_ret_def
      Sample_ret_def prioritized_def response_of_def peer_of_def all_calls_def)

lemma handler_succeeds:
  assumes "well_formed r" and "fst (Update_ret webApp r s) = None"
    and "fst (snd (Read_ret webApp r s)) = None"
    and "fst (snd (Assign_ret webApp r s)) = None"
    and "fst (snd (Sample_ret webApp r s)) = None"
    and "None \<notin> set (fst (Sample_ret webApp r s))"
    and "snd (Marshal (response_of webApp r s)) = None"
  shows "GetAnnounceHandler Marshal webApp w r s =
    \<lparr>writer = write_all (fst (Marshal (response_of webApp r s)))
                (Header_Set ''Content-Type'' ''text/html; charset=utf-8'' w),
     store = snd (snd (Sample_ret webApp r s)), calls = all_calls webApp r s,
     panicked = False\<rparr>"
  using assms(2-) assms(1) [unfolded well_formed_def]
  by (simp add: GetAnnounceHandler_def Let_def Update_ret_def Read_ret_def Assign_ret_def
      Sample_ret_def prioritized_def response_of_def peer_of_def all_calls_def)

lemma length_in_place [simp]: "length (in_place old new) = length old"
  by (simp add: in_place_def)


lemma write_all_Nil [simp]: "write_all [] w = w"
  by (simp add: write_all_def)

lemma sent_Header_Set [simp]: "sent (Header_Set k v w) = sent w"
  by (simp add: Header_Set_def)

lemma body_Header_Set [simp]: "body (Header_Set k v w) = body w"
  by (simp add: Header_Set_def)

subsection \<open>The address is the dotted decimal of the specification\<close>

lemma decimal_1: "n < 10 \<Longrightarrow> decimal n = [char_of (n + 48)]"
  by simp

lemma decimal_2:
  "10 \<le> n \<Longrightarrow> n < 100 \<Longrightarrow> decimal n = [char_of (n div 10 + 48), char_of (n mod 10 + 48)]"
  by (subst decimal.simps) (simp add: decimal_1 del: decimal.simps)

lemma decimal_3:
  "100 \<le> n \<Longrightarrow> n < 1000 \<Longrightarrow>
   decimal n = [char_of (n div 100 + 48), char_of (n div 10 mod 10 + 48), char_of (n mod 10 + 48)]"
  by (subst decimal.simps) (simp add: decimal_2 div_mult2_eq [symmetric] del: decimal.simps)

lemma ubtoa_decimal: "ubtoa v = decimal (unat v)"
proof -
  have lt: "unat v < 256" using unsigned_less [of v, where 'a = nat] by simp
  show ?thesis
    using lt by (simp add: ubtoa_def word_less_nat_alt not_less decimal_1 decimal_2 decimal_3 del: decimal.simps)
qed

lemma octets:
  fixes x :: "32 word"
  shows "unat (ucast (drop_bit 24 x) :: 8 word) = unat x div 2 ^ 24 mod 256"
    "unat (ucast (drop_bit 16 x) :: 8 word) = unat x div 2 ^ 16 mod 256"
    "unat (ucast (drop_bit 8 x) :: 8 word) = unat x div 2 ^ 8 mod 256"
    "unat (ucast x :: 8 word) = unat x mod 256"
  by (simp_all only: unsigned_ucast_eq unat_drop_bit_eq)
    (simp_all add: drop_bit_eq_div take_bit_eq_mod)

lemma IP_String_dotted: "IP_String (Int32toIP x) = dotted_decimal (unat x)"
  by (simp only: IP_String_def Int32toIP_def dotted_decimal_def prod.case ubtoa_decimal
      octets(1-3)) (simp only: octets(4))

section \<open>Which stage fails first\<close>

lemma stage_disj:
  fixes u rd a sm m :: "'e option" and p :: bool
  shows "(\<exists>e. u = Some e) \<or>
    (u = None \<and> (\<exists>e. rd = Some e)) \<or>
    (u = None \<and> rd = None \<and> (\<exists>e. a = Some e)) \<or>
    (u = None \<and> rd = None \<and> a = None \<and> (\<exists>e. sm = Some e)) \<or>
    (u = None \<and> rd = None \<and> a = None \<and> sm = None \<and> p) \<or>
    (u = None \<and> rd = None \<and> a = None \<and> sm = None \<and> \<not> p \<and> (\<exists>e. m = Some e)) \<or>
    (u = None \<and> rd = None \<and> a = None \<and> sm = None \<and> \<not> p \<and> m = None)"
  by (cases u; cases rd; cases a; cases sm; cases m; cases p) simp_all

lemma stage_cases [case_names Update Read Assign Sample Panic Marshal Done]:
  fixes u rd a sm m :: "'e option" and p :: bool
  obtains e where "u = Some e"
    | e where "u = None" "rd = Some e"
    | e where "u = None" "rd = None" "a = Some e"
    | e where "u = None" "rd = None" "a = None" "sm = Some e"
    | "u = None" "rd = None" "a = None" "sm = None" "p"
    | e where "u = None" "rd = None" "a = None" "sm = None" "\<not> p" "m = Some e"
    | "u = None" "rd = None" "a = None" "sm = None" "\<not> p" "m = None"
proof -
  from stage_disj [of u rd a sm p m] show thesis
    by (elim disjE conjE exE) (simp_all add: that)
qed

lemmas run_cases [case_names Update Read Assign Sample Panic Marshal Done] =
  stage_cases [where u = "fst (Update_ret webApp r s)"
    and rd = "fst (snd (Read_ret webApp r s))"
    and a = "fst (snd (Assign_ret webApp r s))"
    and sm = "fst (snd (Sample_ret webApp r s))"
    and p = "None \<in> set (fst (Sample_ret webApp r s))"
    and m = "snd (Marshal (response_of webApp r s))"] for webApp r s Marshal

lemma length_all_calls [simp]: "length (all_calls webApp r s) = 5"
  by (simp add: all_calls_def)

lemma handler_calls_prefix:
  assumes "well_formed r"
  shows "\<exists>k. 1 \<le> k \<and> k \<le> 5 \<and>
    calls (GetAnnounceHandler Marshal webApp w r s) = take k (all_calls webApp r s)"
proof (cases rule: run_cases [where webApp = webApp and r = r and s = s and Marshal = Marshal])
  case (Update e)
  have "calls (GetAnnounceHandler Marshal webApp w r s) = take 1 (all_calls webApp r s)"
    by (simp add: handler_Update_fails [OF assms Update])
  then show ?thesis by (intro exI [of _ 1]) simp
next
  case (Read e)
  have "calls (GetAnnounceHandler Marshal webApp w r s) = take 2 (all_calls webApp r s)"
    by (simp add: handler_Read_fails [OF assms Read])
  then show ?thesis by (intro exI [of _ 2]) simp
next
  case (Assign e)
  have "calls (GetAnnounceHandler Marshal webApp w r s) = take 3 (all_calls webApp r s)"
    by (simp add: handler_Assign_fails [OF assms Assign])
  then show ?thesis by (intro exI [of _ 3]) simp
next
  case (Sample e)
  have "calls (GetAnnounceHandler Marshal webApp w r s) = take 4 (all_calls webApp r s)"
    by (simp add: handler_Sample_fails [OF assms Sample])
  then show ?thesis by (intro exI [of _ 4]) simp
next
  case Panic
  have "calls (GetAnnounceHandler Marshal webApp w r s) = take 4 (all_calls webApp r s)"
    by (simp add: handler_panics [OF assms Panic])
  then show ?thesis by (intro exI [of _ 4]) simp
next
  case (Marshal e)
  have "calls (GetAnnounceHandler Marshal webApp w r s) = take 5 (all_calls webApp r s)"
    by (simp add: handler_Marshal_fails [where Marshal = Marshal, OF assms Marshal])
  then show ?thesis by (intro exI [of _ 5]) simp
next
  case Done
  have "calls (GetAnnounceHandler Marshal webApp w r s) = take 5 (all_calls webApp r s)"
    by (simp add: handler_succeeds [where Marshal = Marshal, OF assms Done])
  then show ?thesis by (intro exI [of _ 5]) simp
qed

section \<open>General facts about a run\<close>

text \<open>
  A well-formed request always reaches \<^verbatim>\<open>Update\<close>, with the record built from the
  request.
\<close>

lemma handler_first_call:
  assumes "well_formed r"
  shows "\<exists>rest. calls (GetAnnounceHandler Marshal webApp w r s) = Call_Update (peer_of r) # rest"
proof -
  from handler_calls_prefix [OF assms,
      where Marshal = Marshal and webApp = webApp and w = w and s = s]
  obtain k where k: "1 \<le> k"
    and c: "calls (GetAnnounceHandler Marshal webApp w r s) = take k (all_calls webApp r s)"
    by blast
  from k obtain j where "k = Suc j" by (cases k) auto
  with c show ?thesis by (simp add: all_calls_def)
qed

text \<open>The calls of a well-formed run are the first \<open>k\<close> of the five, in their order.\<close>

lemma prefix_order:
  assumes "1 \<le> k" and "k \<le> 5" and "cs = take k (all_calls webApp r s)"
  shows "length (filter is_Update cs) = 1 \<and>
    (\<forall>i<length cs. is_Read (cs ! i) \<longrightarrow> (\<exists>j<i. is_Update (cs ! j))) \<and>
    (\<forall>i<length cs. is_SamplePeers (cs ! i) \<longrightarrow> (\<exists>j<i. is_AssignPeerPriority (cs ! j)))"
proof -
  from assms(1,2) have "k = 1 \<or> k = 2 \<or> k = 3 \<or> k = 4 \<or> k = 5" by arith
  then show ?thesis
    unfolding assms(3) all_calls_def
    by (elim disjE) (simp_all add: All_less_Suc Ex_less_Suc)
qed

text \<open>
  The handler reads the request through the nine parameters only: two requests that agree
  on them give the same run.
\<close>

lemma handler_reads_nine:
  assumes "\<forall>k\<in>set announce_keys. Get (Query r') k = Get (Query r) k"
  shows "GetAnnounceHandler Marshal webApp w r' s = GetAnnounceHandler Marshal webApp w r s"
proof -
  from assms have
    "Get (Query r') ''info_hash'' = Get (Query r) ''info_hash''"
    "Get (Query r') ''peer_id'' = Get (Query r) ''peer_id''"
    "Get (Query r') ''port'' = Get (Query r) ''port''"
    "Get (Query r') ''ip'' = Get (Query r) ''ip''"
    "Get (Query r') ''dc'' = Get (Query r) ''dc''"
    "Get (Query r') ''downloaded'' = Get (Query r) ''downloaded''"
    "Get (Query r') ''uploaded'' = Get (Query r) ''uploaded''"
    "Get (Query r') ''left'' = Get (Query r) ''left''"
    "Get (Query r') ''event'' = Get (Query r) ''event''"
    by (simp_all add: announce_keys_def)
  then show ?thesis
    unfolding GetAnnounceHandler_def Let_def by (simp only:)
qed

lemma Get_absent: "map_of q k = None \<Longrightarrow> Get q k = []"
  by (simp add: Get_def)

text \<open>The signed reading of a 64-bit value whose top bit is set.\<close>

lemma sint_above_half:
  fixes u :: "64 word"
  assumes "2 ^ 63 - 1 < uint u"
  shows "sint u = uint u - 2 ^ 64"
proof -
  have lt: "uint u < 2 ^ 64" using uint_lt2p [of u] by simp
  have "sint u = (uint u + 2 ^ 63) mod 2 ^ 64 - 2 ^ 63"
    by (simp add: sint_uint signed_take_bit_eq_take_bit_shift take_bit_eq_mod)
  also have "(uint u + 2 ^ 63) mod 2 ^ 64 = uint u + 2 ^ 63 - 2 ^ 64"
    using assms lt by (simp add: mod_pos_geq)
  finally show ?thesis by simp
qed

lemma uint_max: "uint (- 1 :: 64 word) = 18446744073709551615"
  by (simp add: unsigned_minus_1_eq_mask mask_eq_exp_minus_1)



text \<open>The first of the five checks, on its own.\<close>

lemma handler_port_fails:
  assumes "snd (ParseInt (Get (Query r) ''port'') 64) = Some e"
  shows "GetAnnounceHandler Marshal webApp w r s =
    \<lparr>writer = http_Error w (ErrorText e) StatusInternalServerError,
     store = s, calls = [], panicked = False\<rparr>"
  using assms by (simp add: GetAnnounceHandler_def Let_def)

section \<open>Signed and unsigned readings\<close>

text \<open>
  What \<^verbatim>\<open>ParseInt\<close> returns without an error lies in the signed range of the bit size;
  the low 32 bits of a 64-bit value, read unsigned, are its signed value modulo \<open>2\<^sup>3\<^sup>2\<close>.
\<close>

lemma sint_small:
  fixes u :: "64 word"
  assumes "uint u < 2 ^ 63"
  shows "sint u = uint u"
proof -
  have "- (2 ^ 63) \<le> (0::int)" by simp
  also have "0 \<le> uint u" by simp
  finally have a: "- (2 ^ 63) \<le> uint u" .
  have "signed_take_bit 63 (uint u) = uint u"
    by (rule signed_take_bit_int_eq_self [OF a assms])
  then show ?thesis by (simp add: sint_uint)
qed

lemma sint_neg_small:
  fixes u :: "64 word"
  assumes "uint u \<le> 2 ^ 63"
  shows "sint (- u) = - uint u"
proof -
  have "- uint u \<le> 0" by simp
  also have "(0::int) < 2 ^ 63" by simp
  finally have b: "- uint u < 2 ^ 63" .
  from assms have a: "- (2 ^ 63) \<le> - uint u" by simp
  have "sint (- u) = signed_take_bit 63 (- uint u)"
    by (simp add: sint_uint uint_word_arith_bintrs signed_take_bit_take_bit)
  also have "\<dots> = - uint u"
    by (rule signed_take_bit_int_eq_self [OF a b])
  finally show ?thesis .
qed

lemma ParseInt_cases:
  assumes "snd (ParseInt x bitSize) = None"
  obtains un :: "64 word" where "hd x \<noteq> CHR ''-''" "un < push_bit (bitSize - 1) 1"
      "fst (ParseInt x bitSize) = un"
    | un :: "64 word" where "hd x = CHR ''-''" "un \<le> push_bit (bitSize - 1) 1"
      "fst (ParseInt x bitSize) = - un"
proof -
  let ?s = "if hd x = CHR ''+'' \<or> hd x = CHR ''-'' then tl x else x"
  obtain un e where pu: "ParseUint ?s bitSize = (un, e)" by (cases "ParseUint ?s bitSize")
  from assms have nonempty: "x \<noteq> []" by (auto simp: ParseInt_def)
  have syn: "\<not> (\<exists>f y. e = Some (NumError f y ErrSyntax))"
    using assms nonempty pu by (auto simp: ParseInt_def Let_def)
  have body: "ParseInt x bitSize =
      (if hd x \<noteq> CHR ''-'' \<and> un \<ge> push_bit (bitSize - 1) 1
       then (push_bit (bitSize - 1) 1 - 1, Some (NumError ''ParseInt'' x ErrRange))
       else if hd x = CHR ''-'' \<and> un > push_bit (bitSize - 1) 1
       then (- push_bit (bitSize - 1) 1, Some (NumError ''ParseInt'' x ErrRange))
       else (if hd x = CHR ''-'' then - un else un, None))"
  proof (cases e)
    case None
    with nonempty pu show ?thesis by (simp add: ParseInt_def Let_def)
  next
    case (Some err)
    show ?thesis
    proof (cases err)
      case (NumError f y k)
      with syn Some have "k = ErrRange" by (cases k) auto
      with nonempty pu Some NumError show ?thesis by (simp add: ParseInt_def Let_def)
    next
      case (OtherError t)
      with nonempty pu Some show ?thesis by (simp add: ParseInt_def Let_def)
    qed
  qed
  show thesis
  proof (cases "hd x = CHR ''-''")
    case True
    with assms body have "un \<le> push_bit (bitSize - 1) 1" "fst (ParseInt x bitSize) = - un"
      by (auto simp: not_less split: if_splits)
    with True show thesis by (rule that(2))
  next
    case False
    with assms body have "un < push_bit (bitSize - 1) 1" "fst (ParseInt x bitSize) = un"
      by (auto simp: not_le split: if_splits)
    with False show thesis by (rule that(1))
  qed
qed

lemma ParseInt_32_range:
  assumes "snd (ParseInt x 32) = None"
  shows "- (2 ^ 31) \<le> sint (fst (ParseInt x 32)) \<and> sint (fst (ParseInt x 32)) < 2 ^ 31"
proof (cases rule: ParseInt_cases [OF assms])
  case (1 un)
  from 1 have lt: "uint un < 2 ^ 31" by (simp add: word_less_def)
  then have s: "sint un = uint un" by (intro sint_small) simp
  have "- (2 ^ 31) \<le> (0::int)" by simp
  also have "0 \<le> uint un" by simp
  finally have "- (2 ^ 31) \<le> uint un" .
  then show ?thesis unfolding 1(3) s using lt by (rule conjI)
next
  case (2 un)
  from 2 have le: "uint un \<le> 2 ^ 31" by (simp add: word_le_def)
  then have s: "sint (- un) = - uint un" by (intro sint_neg_small) simp
  from le have a: "- (2 ^ 31) \<le> - uint un" by simp
  have "- uint un \<le> 0" by simp
  also have "(0::int) < 2 ^ 31" by simp
  finally have "- uint un < 2 ^ 31" .
  with a show ?thesis unfolding 2(3) s by (rule conjI)
qed

lemma unat_ucast_sint:
  fixes v :: "64 word"
  shows "unat (ucast v :: 32 word) = nat (sint v mod 2 ^ 32)"
proof -
  have "sint v mod 2 ^ 32 = take_bit 32 (signed_take_bit 63 (uint v))"
    by (simp add: sint_uint take_bit_eq_mod)
  also have "\<dots> = take_bit 32 (uint v)"
    by (rule take_bit_signed_take_bit) simp
  finally have "nat (sint v mod 2 ^ 32) = nat (take_bit 32 (uint v))" by simp
  also have "\<dots> = take_bit 32 (unat v)"
    by (simp add: nat_take_bit_eq)
  also have "\<dots> = unat (ucast v :: 32 word)"
    by (simp add: unsigned_ucast_eq)
  finally show ?thesis by simp
qed

section \<open>Evaluating the examples\<close>

lemma Get_simps:
  "Get [] key = []"
  "Get ((k, vs) # q) key =
     (if k = key then (case vs of [] \<Rightarrow> [] | x # xs \<Rightarrow> x) else Get q key)"
  by (simp_all add: Get_def split: list.splits)

lemmas parse_eval =
  ParseInt_def ParseUint_def is_digit_def digit_val_def cutoff10_def maxUint64_def maxVal_def
  word_le_nat_alt word_less_nat_alt

lemmas request_eval =
  request_with_def request_without_def scenario_query_def Get_simps AList.delete_eq

text \<open>The in-memory datastore and the trivial policy, stage by stage.\<close>

lemma memory_app_simps:
  "AnnounceInterval (memory_app n) = 3"
  "datastore_Update (memory_app n) p s =
     (if n = 1 then (Some (OtherError ''update failed''), s)
      else (None, p # filter (\<lambda>q. InfoHash q \<noteq> InfoHash p \<or> PeerID q \<noteq> PeerID p) s))"
  "datastore_Read (memory_app n) h s =
     (if n = 2 then ([], Some (OtherError ''read failed''), s)
      else (map Some (filter (\<lambda>q. InfoHash q = h) s), None, s))"
  "policy_AssignPeerPriority (memory_app n) ip dc ps s =
     (if n = 3 then (ps, Some (OtherError ''priority failed''), s) else (ps, None, s))"
  "policy_SamplePeers (memory_app n) ps limit s =
     (if n = 4 then ([], Some (OtherError ''sampling failed''), s) else (take limit ps, None, s))"
  by (simp_all add: memory_app_def)

lemma memory_Update:
  "Update_ret (memory_app 0) r s =
     (None, peer_of r #
        filter (\<lambda>q. InfoHash q \<noteq> InfoHash (peer_of r) \<or> PeerID q \<noteq> PeerID (peer_of r)) s)"
  by (simp add: Update_ret_def memory_app_simps)

lemma memory_Read:
  "Read_ret (memory_app 0) r s =
     (map Some (filter (\<lambda>q. InfoHash q = InfoHash (peer_of r))
                  (snd (Update_ret (memory_app 0) r s))),
      None, snd (Update_ret (memory_app 0) r s))"
  by (simp add: Read_ret_def memory_app_simps)

lemma memory_Assign:
  "Assign_ret (memory_app 0) r s =
     (fst (Read_ret (memory_app 0) r s), None, snd (snd (Read_ret (memory_app 0) r s)))"
  by (simp add: Assign_ret_def memory_app_simps)

lemma memory_prioritized:
  "prioritized (memory_app 0) r s = fst (Read_ret (memory_app 0) r s)"
  by (simp add: prioritized_def memory_Assign in_place_def)

lemma memory_Sample:
  "Sample_ret (memory_app 0) r s =
     (fst (Read_ret (memory_app 0) r s), None, snd (snd (Read_ret (memory_app 0) r s)))"
  by (simp add: Sample_ret_def memory_prioritized memory_Assign memory_app_simps)

lemmas memory_stages = memory_Sample memory_prioritized memory_Assign memory_Read memory_Update

lemma memory_no_nil: "None \<notin> set (fst (Sample_ret (memory_app 0) r s))"
  by (simp add: memory_Sample memory_Read image_iff)

text \<open>The example requests.\<close>

lemma scenario_well_formed: "well_formed (request_with ''event'' ''started'')"
  by (simp add: well_formed_def request_eval parse_eval)

lemmas decimal_eval = dotted_decimal_def decimal_1 decimal_2 decimal_3 char_of_def bit_0

lemma scenario_address: "dotted_decimal 2130706433 = ''127.0.0.1''"
  by (simp add: decimal_eval del: decimal.simps)

lemma scenario_peer_of: "peer_of (request_with ''event'' ''started'') = scenario_peer"
  by (simp add: peer_of_def request_eval parse_eval EncodeToString_def hextable_def
      scenario_peer_def IP_String_dotted unsigned_ucast_eq take_bit_eq_mod scenario_address
      del: decimal.simps)


text \<open>
  The scenario of the specification, run against the in-memory datastore: \<^verbatim>\<open>Update\<close>
  receives a record with the address \<^verbatim>\<open>127.0.0.1\<close> and the port 6881, and all five calls
  are made.
\<close>

lemma scenario_run:
  "GetAnnounceHandler (const_encoder [''d''] None) (memory_app 0) new_writer
     (request_with ''event'' ''started'') [] =
   \<lparr>writer = \<lparr>Header = [(''Content-Type'', ''text/html; charset=utf-8'')],
               sent = Some (200, [(''Content-Type'', ''text/html; charset=utf-8'')]),
               body = [Raw ''d'']\<rparr>,
    store = [scenario_peer],
    calls = [Call_Update scenario_peer, Call_Read ''4142'',
             Call_AssignPeerPriority ''127.0.0.1'' ''sjc1'' [Some scenario_peer],
             Call_SamplePeers [Some scenario_peer] 1,
             Call_Marshal \<lparr>Interval = 3, Peers = [scenario_peer]\<rparr>],
    panicked = False\<rparr>"
proof -
  have "GetAnnounceHandler (const_encoder [''d''] None) (memory_app 0) new_writer
     (request_with ''event'' ''started'') [] =
    \<lparr>writer = write_all (fst (const_encoder [''d''] None
                  (response_of (memory_app 0) (request_with ''event'' ''started'') [])))
                (Header_Set ''Content-Type'' ''text/html; charset=utf-8'' new_writer),
     store = snd (snd (Sample_ret (memory_app 0) (request_with ''event'' ''started'') [])),
     calls = all_calls (memory_app 0) (request_with ''event'' ''started'') [],
     panicked = False\<rparr>"
    by (rule handler_succeeds [OF scenario_well_formed])
      (simp_all add: memory_stages memory_no_nil const_encoder_def)
  also have "\<dots> = \<lparr>writer = \<lparr>Header = [(''Content-Type'', ''text/html; charset=utf-8'')],
               sent = Some (200, [(''Content-Type'', ''text/html; charset=utf-8'')]),
               body = [Raw ''d'']\<rparr>,
    store = [scenario_peer],
    calls = [Call_Update scenario_peer, Call_Read ''4142'',
             Call_AssignPeerPriority ''127.0.0.1'' ''sjc1'' [Some scenario_peer],
             Call_SamplePeers [Some scenario_peer] 1,
             Call_Marshal \<lparr>Interval = 3, Peers = [scenario_peer]\<rparr>],
    panicked = False\<rparr>"
    by (simp add: all_calls_def response_of_def memory_stages scenario_peer_of memory_app_simps
        const_encoder_def write_all_def Write_def WriteHeader_def Header_Set_def new_writer_def)
      (simp add: scenario_peer_def)
  finally show ?thesis .
qed


text \<open>The error each collaborator of \<open>memory_app n\<close> returns, and the state it leaves.\<close>

lemma memory_errors:
  "fst (Update_ret (memory_app n) r s) =
     (if n = 1 then Some (OtherError ''update failed'') else None)"
  "fst (snd (Read_ret (memory_app n) r s)) =
     (if n = 2 then Some (OtherError ''read failed'') else None)"
  "fst (snd (Assign_ret (memory_app n) r s)) =
     (if n = 3 then Some (OtherError ''priority failed'') else None)"
  "fst (snd (Sample_ret (memory_app n) r s)) =
     (if n = 4 then Some (OtherError ''sampling failed'') else None)"
  by (simp_all add: Update_ret_def Read_ret_def Assign_ret_def Sample_ret_def memory_app_simps)


lemma left_max_parses:
  "ParseUint (Get (Query (request_with ''left'' ''18446744073709551615'')) ''left'') 64 =
   (- 1, None)"
  by (simp add: request_eval parse_eval)

lemma left_max_well_formed: "well_formed (request_with ''left'' ''18446744073709551615'')"
  by (simp add: well_formed_def left_max_parses) (simp add: request_eval parse_eval)

lemma numwant_well_formed: "well_formed (request_with ''numwant'' ''1'')"
  by (simp add: well_formed_def request_eval parse_eval)

lemma numwant_peer_of: "peer_of (request_with ''numwant'' ''1'') = scenario_peer"
  by (simp add: peer_of_def request_eval parse_eval EncodeToString_def hextable_def
      scenario_peer_def IP_String_dotted unsigned_ucast_eq take_bit_eq_mod scenario_address
      del: decimal.simps)

lemma no_info_hash_well_formed: "well_formed (request_without ''info_hash'')"
  by (simp add: well_formed_def request_eval parse_eval)

lemma empty_peer_id_well_formed: "well_formed (request_with ''peer_id'' [])"
  by (simp add: well_formed_def request_eval parse_eval)


lemma negative_port_well_formed: "well_formed (request_with ''port'' ''-1'')"
  by (simp add: well_formed_def request_eval parse_eval)

lemma negative_port_parses:
  "ParseInt (Get (Query (request_with ''port'' ''-1'')) ''port'') 64 = (- 1, None)"
  by (simp add: request_eval parse_eval)

lemma negative_port_peer_of:
  "peer_of (request_with ''port'' ''-1'') = scenario_peer\<lparr>Port := - 1\<rparr>"
  by (simp add: peer_of_def request_eval parse_eval EncodeToString_def hextable_def
      scenario_peer_def IP_String_dotted unsigned_ucast_eq take_bit_eq_mod scenario_address
      del: decimal.simps)

lemma huge_port_rejected:
  "snd (ParseInt (Get (Query (request_with ''port'' ''9223372036854775808'')) ''port'') 64) \<noteq> None"
  by (simp add: request_eval parse_eval)

lemma unsigned_ip_rejected:
  "snd (ParseInt (Get (Query (request_with ''ip'' ''3232235521'')) ''ip'') 32) \<noteq> None"
  by (simp add: request_eval parse_eval)

lemma negative_ip_well_formed: "well_formed (request_with ''ip'' ''-1062731775'')"
  by (simp add: well_formed_def request_eval parse_eval)

lemma negative_ip_address:
  "dotted_decimal (unat (ucast (fst (ParseInt
     (Get (Query (request_with ''ip'' ''-1062731775'')) ''ip'') 32)) :: 32 word)) = ''192.168.0.1''"
  by (simp add: request_eval parse_eval unsigned_ucast_eq take_bit_eq_mod decimal_eval
      del: decimal.simps)

text \<open>
  What the handler gives the encoder: the interval of the configuration and the records
  that sampling returned, dereferenced and otherwise as they are, with all their fields.
  The handler selects no fields; what is written of a record is the encoder's matter.
\<close>

lemma encoder_receives_whole_records:
  assumes "well_formed r" and "fst (Update_ret webApp r s) = None"
    and "fst (snd (Read_ret webApp r s)) = None"
    and "fst (snd (Assign_ret webApp r s)) = None"
    and "fst (snd (Sample_ret webApp r s)) = None"
    and "None \<notin> set (fst (Sample_ret webApp r s))"
  shows "last (calls (GetAnnounceHandler Marshal webApp w r s)) =
    Call_Marshal \<lparr>Interval = AnnounceInterval webApp,
                  Peers = map the (fst (Sample_ret webApp r s))\<rparr>"
proof (cases "snd (Marshal (response_of webApp r s))")
  case None
  show ?thesis
    by (simp add: handler_succeeds [where Marshal = Marshal, OF assms None]
        all_calls_def response_of_def)
next
  case (Some e)
  show ?thesis
    by (simp add: handler_Marshal_fails [where Marshal = Marshal, OF assms Some]
        all_calls_def response_of_def)
qed

section \<open>The properties\<close>




text \<open>
  C2. When one of \<^verbatim>\<open>port\<close>, \<^verbatim>\<open>ip\<close>, \<^verbatim>\<open>downloaded\<close>, \<^verbatim>\<open>uploaded\<close> or \<^verbatim>\<open>left\<close> does not
  parse, the run ends in validation: the handler calls neither the datastore
  (\<^verbatim>\<open>Update\<close>, \<^verbatim>\<open>Read\<close>) nor the policy (\<^verbatim>\<open>AssignPeerPriority\<close>, \<^verbatim>\<open>SamplePeers\<close>) nor the
  encoder, the state of the collaborators is untouched, and all the handler does is
  answer with the parse error. No peer record reaches anyone: the record is built only
  after the five checks, and its only consumers are the calls that are not made.
\<close>

theorem announce_malformed_no_calls:
  assumes "snd (ParseInt (Get (Query r) ''port'') 64) \<noteq> None \<or>
           snd (ParseInt (Get (Query r) ''ip'') 32) \<noteq> None \<or>
           snd (ParseInt (Get (Query r) ''downloaded'') 64) \<noteq> None \<or>
           snd (ParseInt (Get (Query r) ''uploaded'') 64) \<noteq> None \<or>
           snd (ParseUint (Get (Query r) ''left'') 64) \<noteq> None"
  shows "calls (GetAnnounceHandler Marshal webApp w r s) = [] \<and>
         store (GetAnnounceHandler Marshal webApp w r s) = s \<and>
         \<not> panicked (GetAnnounceHandler Marshal webApp w r s) \<and>
         (\<exists>f x k. writer (GetAnnounceHandler Marshal webApp w r s) =
                    http_Error w (ErrorText (NumError f x k)) StatusInternalServerError)"
proof -
  from assms have nwf: "\<not> well_formed r"
    unfolding well_formed_def by blast
  from validation_error_form [OF nwf] obtain f x k
    where "validation_error r = Some (NumError f x k)" by blast
  then show ?thesis
    unfolding handler_invalid [OF nwf] by auto
qed

theorem announce_malformed_no_calls_witness:
  "snd (ParseInt (Get (Query (request_with ''port'' ''abc'')) ''port'') 64) \<noteq> None \<and>
   calls (GetAnnounceHandler (const_encoder [] None) (memory_app 0) new_writer
           (request_with ''port'' ''abc'') []) = [] \<and>
   store (GetAnnounceHandler (const_encoder [] None) (memory_app 0) new_writer
           (request_with ''port'' ''abc'') []) = [] \<and>
   snd (ParseUint (Get (Query (request_with ''left'' ''-1'')) ''left'') 64) \<noteq> None \<and>
   calls (GetAnnounceHandler (const_encoder [] None) (memory_app 0) new_writer
           (request_with ''left'' ''-1'') []) = []"
proof -
  have a: "snd (ParseInt (Get (Query (request_with ''port'' ''abc'')) ''port'') 64) \<noteq> None"
    by (simp add: request_eval parse_eval)
  have b: "snd (ParseUint (Get (Query (request_with ''left'' ''-1'')) ''left'') 64) \<noteq> None"
    by (simp add: request_eval parse_eval)
  from a have a': "snd (ParseInt (Get (Query (request_with ''port'' ''abc'')) ''port'') 64) \<noteq> None \<or>
      snd (ParseInt (Get (Query (request_with ''port'' ''abc'')) ''ip'') 32) \<noteq> None \<or>
      snd (ParseInt (Get (Query (request_with ''port'' ''abc'')) ''downloaded'') 64) \<noteq> None \<or>
      snd (ParseInt (Get (Query (request_with ''port'' ''abc'')) ''uploaded'') 64) \<noteq> None \<or>
      snd (ParseUint (Get (Query (request_with ''port'' ''abc'')) ''left'') 64) \<noteq> None"
    by (rule disjI1)
  from b have b': "snd (ParseInt (Get (Query (request_with ''left'' ''-1'')) ''port'') 64) \<noteq> None \<or>
      snd (ParseInt (Get (Query (request_with ''left'' ''-1'')) ''ip'') 32) \<noteq> None \<or>
      snd (ParseInt (Get (Query (request_with ''left'' ''-1'')) ''downloaded'') 64) \<noteq> None \<or>
      snd (ParseInt (Get (Query (request_with ''left'' ''-1'')) ''uploaded'') 64) \<noteq> None \<or>
      snd (ParseUint (Get (Query (request_with ''left'' ''-1'')) ''left'') 64) \<noteq> None"
    by (intro disjI2)
  note p = announce_malformed_no_calls [OF a', where Marshal = "const_encoder [] None"
      and webApp = "memory_app 0" and w = new_writer and s = "[]"]
  note l = announce_malformed_no_calls [OF b', where Marshal = "const_encoder [] None"
      and webApp = "memory_app 0" and w = new_writer and s = "[]"]
  show ?thesis
    by (intro conjI a b p [THEN conjunct1] p [THEN conjunct2, THEN conjunct1] l [THEN conjunct1])
qed

text \<open>
  C3. When the five numbers parse and \<^verbatim>\<open>left\<close>, an unsigned 64-bit value, is above
  \<open>2\<^sup>6\<^sup>3 - 1\<close>, the record handed to \<^verbatim>\<open>Update\<close> carries in \<^verbatim>\<open>BytesLeft\<close> the same 64
  bits (\<^verbatim>\<open>int64(peerBytesLeft)\<close>): read as a signed integer that is the value minus
  \<open>2\<^sup>6\<^sup>4\<close>, a negative number. The request is not rejected and the value is not
  clamped to \<open>2\<^sup>6\<^sup>3 - 1\<close>.
\<close>

theorem announce_left_narrowing:
  assumes "well_formed r"
    and "2 ^ 63 - 1 < uint (fst (ParseUint (Get (Query r) ''left'') 64))"
  shows "\<exists>p rest. calls (GetAnnounceHandler Marshal webApp w r s) = Call_Update p # rest \<and>
           BytesLeft p = fst (ParseUint (Get (Query r) ''left'') 64) \<and>
           sint (BytesLeft p) = uint (fst (ParseUint (Get (Query r) ''left'') 64)) - 2 ^ 64 \<and>
           sint (BytesLeft p) < 0"
proof -
  let ?u = "fst (ParseUint (Get (Query r) ''left'') 64)"
  from handler_first_call [OF assms(1),
      where Marshal = Marshal and webApp = webApp and w = w and s = s]
  obtain rest
    where c: "calls (GetAnnounceHandler Marshal webApp w r s) = Call_Update (peer_of r) # rest"
    by blast
  have b: "BytesLeft (peer_of r) = ?u" by (simp add: peer_of_def)
  have s: "sint ?u = uint ?u - 2 ^ 64" by (rule sint_above_half [OF assms(2)])
  have "uint ?u < 2 ^ 64" using uint_lt2p [of ?u] by simp
  with s have n: "sint ?u < 0" by simp
  from c b s n show ?thesis by auto
qed

theorem announce_left_narrowing_witness:
  "well_formed (request_with ''left'' ''18446744073709551615'') \<and>
   2 ^ 63 - 1 <
     uint (fst (ParseUint
       (Get (Query (request_with ''left'' ''18446744073709551615'')) ''left'') 64)) \<and>
   (\<exists>p rest. calls (GetAnnounceHandler (const_encoder [''d''] None) (memory_app 0) new_writer
                 (request_with ''left'' ''18446744073709551615'') []) = Call_Update p # rest \<and>
      sint (BytesLeft p) = - 1)"
proof -
  have h: "2 ^ 63 - 1 <
     uint (fst (ParseUint
       (Get (Query (request_with ''left'' ''18446744073709551615'')) ''left'') 64))"
    by (simp add: left_max_parses uint_max)
  from announce_left_narrowing [OF left_max_well_formed h,
      of "const_encoder [''d''] None" "memory_app 0" new_writer "[]"]
  obtain p rest where
    "calls (GetAnnounceHandler (const_encoder [''d''] None) (memory_app 0) new_writer
       (request_with ''left'' ''18446744073709551615'') []) = Call_Update p # rest"
    "sint (BytesLeft p) = - 1"
    by (auto simp: left_max_parses uint_max)
  with left_max_well_formed h show ?thesis by blast
qed

text \<open>
  C4. In every run on a well-formed request \<^verbatim>\<open>Update\<close> is called exactly once; a call of
  \<^verbatim>\<open>Read\<close> comes after the call of \<^verbatim>\<open>Update\<close>, and a call of \<^verbatim>\<open>SamplePeers\<close> comes after
  a call of \<^verbatim>\<open>AssignPeerPriority\<close>. The calls are an initial part of the sequence
  \<^verbatim>\<open>Update\<close>, \<^verbatim>\<open>Read\<close>, \<^verbatim>\<open>AssignPeerPriority\<close>, \<^verbatim>\<open>SamplePeers\<close>, \<^verbatim>\<open>Marshal\<close>, cut where a stage
  fails.
\<close>

theorem announce_call_order:
  assumes "well_formed r"
  shows "length (filter is_Update (calls (GetAnnounceHandler Marshal webApp w r s))) = 1 \<and>
    (\<forall>i<length (calls (GetAnnounceHandler Marshal webApp w r s)).
        is_Read (calls (GetAnnounceHandler Marshal webApp w r s) ! i) \<longrightarrow>
        (\<exists>j<i. is_Update (calls (GetAnnounceHandler Marshal webApp w r s) ! j))) \<and>
    (\<forall>i<length (calls (GetAnnounceHandler Marshal webApp w r s)).
        is_SamplePeers (calls (GetAnnounceHandler Marshal webApp w r s) ! i) \<longrightarrow>
        (\<exists>j<i. is_AssignPeerPriority (calls (GetAnnounceHandler Marshal webApp w r s) ! j))) \<and>
    (\<exists>k. 1 \<le> k \<and> k \<le> 5 \<and>
        calls (GetAnnounceHandler Marshal webApp w r s) = take k (all_calls webApp r s))"
proof -
  from handler_calls_prefix [OF assms,
      where Marshal = Marshal and webApp = webApp and w = w and s = s]
  obtain k where k: "1 \<le> k" "k \<le> 5"
    and c: "calls (GetAnnounceHandler Marshal webApp w r s) = take k (all_calls webApp r s)"
    by blast
  from prefix_order [OF k c] k c show ?thesis by blast
qed

theorem announce_call_order_witness:
  "well_formed (request_with ''event'' ''started'') \<and>
   length (filter is_Update (calls (GetAnnounceHandler (const_encoder [''d''] None)
     (memory_app 0) new_writer (request_with ''event'' ''started'') []))) = 1 \<and>
   calls (GetAnnounceHandler (const_encoder [''d''] None) (memory_app 0) new_writer
     (request_with ''event'' ''started'') []) =
     [Call_Update scenario_peer, Call_Read ''4142'',
      Call_AssignPeerPriority ''127.0.0.1'' ''sjc1'' [Some scenario_peer],
      Call_SamplePeers [Some scenario_peer] 1,
      Call_Marshal \<lparr>Interval = 3, Peers = [scenario_peer]\<rparr>]"
proof -
  note one = announce_call_order [OF scenario_well_formed,
      where Marshal = "const_encoder [''d''] None" and webApp = "memory_app 0"
        and w = new_writer and s = "[]", THEN conjunct1]
  have c: "calls (GetAnnounceHandler (const_encoder [''d''] None) (memory_app 0) new_writer
     (request_with ''event'' ''started'') []) =
     [Call_Update scenario_peer, Call_Read ''4142'',
      Call_AssignPeerPriority ''127.0.0.1'' ''sjc1'' [Some scenario_peer],
      Call_SamplePeers [Some scenario_peer] 1,
      Call_Marshal \<lparr>Interval = 3, Peers = [scenario_peer]\<rparr>]"
    by (simp add: scenario_run)
  show ?thesis
    by (intro conjI scenario_well_formed one c)
qed

text \<open>
  C6, as the code has it. The port is parsed as a signed 64-bit decimal integer
  (\<^verbatim>\<open>strconv.ParseInt(_, 10, 64)\<close>). A port that does not parse is a validation failure:
  no call is made and the answer is the parse error of the port. When the five numbers
  parse, \<^verbatim>\<open>Update\<close> is called with a record whose \<^verbatim>\<open>Port\<close> is the parsed number, whatever
  its sign.
\<close>

theorem announce_port_signed:
  "(snd (ParseInt (Get (Query r) ''port'') 64) \<noteq> None \<longrightarrow>
      calls (GetAnnounceHandler Marshal webApp w r s) = [] \<and>
      (\<exists>k. writer (GetAnnounceHandler Marshal webApp w r s) =
         http_Error w (ErrorText (NumError ''ParseInt'' (Get (Query r) ''port'') k))
           StatusInternalServerError)) \<and>
   (well_formed r \<longrightarrow>
      (\<exists>p rest. calls (GetAnnounceHandler Marshal webApp w r s) = Call_Update p # rest \<and>
         Port p = fst (ParseInt (Get (Query r) ''port'') 64)))"
proof -
  have bad: "snd (ParseInt (Get (Query r) ''port'') 64) \<noteq> None \<longrightarrow>
      calls (GetAnnounceHandler Marshal webApp w r s) = [] \<and>
      (\<exists>k. writer (GetAnnounceHandler Marshal webApp w r s) =
         http_Error w (ErrorText (NumError ''ParseInt'' (Get (Query r) ''port'') k))
           StatusInternalServerError)"
  proof
    assume "snd (ParseInt (Get (Query r) ''port'') 64) \<noteq> None"
    then obtain e where e: "snd (ParseInt (Get (Query r) ''port'') 64) = Some e" by blast
    from ParseInt_error [OF e] obtain k
      where "e = NumError ''ParseInt'' (Get (Query r) ''port'') k" by blast
    then show "calls (GetAnnounceHandler Marshal webApp w r s) = [] \<and>
        (\<exists>k. writer (GetAnnounceHandler Marshal webApp w r s) =
           http_Error w (ErrorText (NumError ''ParseInt'' (Get (Query r) ''port'') k))
             StatusInternalServerError)"
      unfolding handler_port_fails [OF e] by auto
  qed
  have good: "well_formed r \<longrightarrow>
      (\<exists>p rest. calls (GetAnnounceHandler Marshal webApp w r s) = Call_Update p # rest \<and>
         Port p = fst (ParseInt (Get (Query r) ''port'') 64))"
  proof
    assume wf: "well_formed r"
    from handler_first_call [OF wf,
        where Marshal = Marshal and webApp = webApp and w = w and s = s]
    obtain rest
      where "calls (GetAnnounceHandler Marshal webApp w r s) = Call_Update (peer_of r) # rest"
      by blast
    moreover have "Port (peer_of r) = fst (ParseInt (Get (Query r) ''port'') 64)"
      by (simp add: peer_of_def)
    ultimately show "\<exists>p rest. calls (GetAnnounceHandler Marshal webApp w r s) =
        Call_Update p # rest \<and> Port p = fst (ParseInt (Get (Query r) ''port'') 64)"
      by blast
  qed
  from bad good show ?thesis by (rule conjI)
qed

theorem announce_port_signed_witness:
  "snd (ParseInt (Get (Query (request_with ''port'' ''9223372036854775808'')) ''port'') 64) \<noteq>
     None \<and>
   calls (GetAnnounceHandler (const_encoder [''d''] None) (memory_app 0) new_writer
     (request_with ''port'' ''9223372036854775808'') []) = [] \<and>
   well_formed (request_with ''port'' ''-1'') \<and>
   (\<exists>p rest. calls (GetAnnounceHandler (const_encoder [''d''] None) (memory_app 0) new_writer
       (request_with ''port'' ''-1'') []) = Call_Update p # rest \<and> Port p = - 1)"
proof -
  note big = announce_port_signed [where r = "request_with ''port'' ''9223372036854775808''"
      and Marshal = "const_encoder [''d''] None" and webApp = "memory_app 0"
      and w = new_writer and s = "[]", THEN conjunct1, THEN mp, OF huge_port_rejected,
      THEN conjunct1]
  note neg = announce_port_signed [where r = "request_with ''port'' ''-1''"
      and Marshal = "const_encoder [''d''] None" and webApp = "memory_app 0"
      and w = new_writer and s = "[]", THEN conjunct2, THEN mp, OF negative_port_well_formed,
      unfolded negative_port_parses fst_conv]
  show ?thesis
    by (intro conjI huge_port_rejected big negative_port_well_formed neg)
qed

text \<open>
  The counterexample to C6 as stated: \<^verbatim>\<open>port=-1\<close> parses, as the negative number \<open>-1\<close>, and the request
  is not rejected: \<^verbatim>\<open>Update\<close> is called with a record whose port is \<open>-1\<close>, and the
  datastore keeps it.
\<close>

theorem announce_negative_port_accepted:
  "snd (ParseInt (Get (Query (request_with ''port'' ''-1'')) ''port'') 64) = None \<and>
   sint (fst (ParseInt (Get (Query (request_with ''port'' ''-1'')) ''port'') 64)) = - 1 \<and>
   take 1 (calls (GetAnnounceHandler (const_encoder [''d''] None) (memory_app 0) new_writer
     (request_with ''port'' ''-1'') [])) = [Call_Update (scenario_peer\<lparr>Port := - 1\<rparr>)] \<and>
   store (GetAnnounceHandler (const_encoder [''d''] None) (memory_app 0) new_writer
     (request_with ''port'' ''-1'') []) = [scenario_peer\<lparr>Port := - 1\<rparr>] \<and>
   status_code (writer (GetAnnounceHandler (const_encoder [''d''] None) (memory_app 0) new_writer
     (request_with ''port'' ''-1'') [])) = 200"
proof -
  have run: "GetAnnounceHandler (const_encoder [''d''] None) (memory_app 0) new_writer
     (request_with ''port'' ''-1'') [] =
    \<lparr>writer = write_all (fst (const_encoder [''d''] None
                  (response_of (memory_app 0) (request_with ''port'' ''-1'') [])))
                (Header_Set ''Content-Type'' ''text/html; charset=utf-8'' new_writer),
     store = snd (snd (Sample_ret (memory_app 0) (request_with ''port'' ''-1'') [])),
     calls = all_calls (memory_app 0) (request_with ''port'' ''-1'') [],
     panicked = False\<rparr>"
    by (rule handler_succeeds [OF negative_port_well_formed])
      (simp_all add: memory_errors memory_no_nil const_encoder_def)
  show ?thesis
    unfolding run
    by (simp add: negative_port_parses all_calls_def memory_stages negative_port_peer_of
        const_encoder_def write_all_def Write_def WriteHeader_def Header_Set_def new_writer_def
        status_code_def)
qed

text \<open>
  C7. The \<^verbatim>\<open>ip\<close> parameter is parsed as a signed 32-bit decimal integer. When it does not
  parse, the request fails validation: no call is made, the state is untouched and the
  answer is a parse error; nothing is put in its place, and the address the request came
  from plays no part in any run. When the five numbers parse, \<^verbatim>\<open>Update\<close> is called with a
  record whose \<^verbatim>\<open>IP\<close> is the dotted decimal of the 32 bits of the parsed integer (a
  number from \<open>-2\<^sup>3\<^sup>1\<close> to \<open>2\<^sup>3\<^sup>1 - 1\<close>, taken modulo \<open>2\<^sup>3\<^sup>2\<close>): its four octets, most
  significant first.
\<close>

theorem announce_ip_decoding:
  "(snd (ParseInt (Get (Query r) ''ip'') 32) \<noteq> None \<longrightarrow>
      calls (GetAnnounceHandler Marshal webApp w r s) = [] \<and>
      store (GetAnnounceHandler Marshal webApp w r s) = s \<and>
      (\<exists>f x k. writer (GetAnnounceHandler Marshal webApp w r s) =
         http_Error w (ErrorText (NumError f x k)) StatusInternalServerError)) \<and>
   (well_formed r \<longrightarrow>
      - (2 ^ 31) \<le> sint (fst (ParseInt (Get (Query r) ''ip'') 32)) \<and>
      sint (fst (ParseInt (Get (Query r) ''ip'') 32)) < 2 ^ 31 \<and>
      (\<exists>p rest. calls (GetAnnounceHandler Marshal webApp w r s) = Call_Update p # rest \<and>
         IP p = dotted_decimal
                  (nat (sint (fst (ParseInt (Get (Query r) ''ip'') 32)) mod 2 ^ 32)))) \<and>
   (\<forall>a. GetAnnounceHandler Marshal webApp w (r\<lparr>RemoteAddr := a\<rparr>) s =
        GetAnnounceHandler Marshal webApp w r s)"
proof -
  have bad: "snd (ParseInt (Get (Query r) ''ip'') 32) \<noteq> None \<longrightarrow>
      calls (GetAnnounceHandler Marshal webApp w r s) = [] \<and>
      store (GetAnnounceHandler Marshal webApp w r s) = s \<and>
      (\<exists>f x k. writer (GetAnnounceHandler Marshal webApp w r s) =
         http_Error w (ErrorText (NumError f x k)) StatusInternalServerError)"
  proof
    assume "snd (ParseInt (Get (Query r) ''ip'') 32) \<noteq> None"
    then have nwf: "\<not> well_formed r" by (simp add: well_formed_def)
    from validation_error_form [OF nwf] obtain f x k
      where "validation_error r = Some (NumError f x k)" by blast
    then show "calls (GetAnnounceHandler Marshal webApp w r s) = [] \<and>
        store (GetAnnounceHandler Marshal webApp w r s) = s \<and>
        (\<exists>f x k. writer (GetAnnounceHandler Marshal webApp w r s) =
           http_Error w (ErrorText (NumError f x k)) StatusInternalServerError)"
      unfolding handler_invalid [OF nwf] by auto
  qed
  have good: "well_formed r \<longrightarrow>
      - (2 ^ 31) \<le> sint (fst (ParseInt (Get (Query r) ''ip'') 32)) \<and>
      sint (fst (ParseInt (Get (Query r) ''ip'') 32)) < 2 ^ 31 \<and>
      (\<exists>p rest. calls (GetAnnounceHandler Marshal webApp w r s) = Call_Update p # rest \<and>
         IP p = dotted_decimal
                  (nat (sint (fst (ParseInt (Get (Query r) ''ip'') 32)) mod 2 ^ 32)))"
  proof
    assume wf: "well_formed r"
    then have "snd (ParseInt (Get (Query r) ''ip'') 32) = None"
      by (simp add: well_formed_def)
    note range = ParseInt_32_range [OF this]
    from handler_first_call [OF wf,
        where Marshal = Marshal and webApp = webApp and w = w and s = s]
    obtain rest
      where c: "calls (GetAnnounceHandler Marshal webApp w r s) = Call_Update (peer_of r) # rest"
      by blast
    have "IP (peer_of r) = dotted_decimal
        (nat (sint (fst (ParseInt (Get (Query r) ''ip'') 32)) mod 2 ^ 32))"
      by (simp add: peer_of_def IP_String_dotted unat_ucast_sint del: decimal.simps)
    with c have "\<exists>p rest. calls (GetAnnounceHandler Marshal webApp w r s) =
        Call_Update p # rest \<and>
        IP p = dotted_decimal
                 (nat (sint (fst (ParseInt (Get (Query r) ''ip'') 32)) mod 2 ^ 32))"
      by blast
    with range show "- (2 ^ 31) \<le> sint (fst (ParseInt (Get (Query r) ''ip'') 32)) \<and>
      sint (fst (ParseInt (Get (Query r) ''ip'') 32)) < 2 ^ 31 \<and>
      (\<exists>p rest. calls (GetAnnounceHandler Marshal webApp w r s) = Call_Update p # rest \<and>
         IP p = dotted_decimal
                  (nat (sint (fst (ParseInt (Get (Query r) ''ip'') 32)) mod 2 ^ 32)))"
      by blast
  qed
  have source: "\<forall>a. GetAnnounceHandler Marshal webApp w (r\<lparr>RemoteAddr := a\<rparr>) s =
      GetAnnounceHandler Marshal webApp w r s"
  proof
    fix a
    show "GetAnnounceHandler Marshal webApp w (r\<lparr>RemoteAddr := a\<rparr>) s =
        GetAnnounceHandler Marshal webApp w r s"
      by (rule handler_reads_nine) simp
  qed
  from bad good source show ?thesis by (intro conjI)
qed

theorem announce_ip_decoding_witness:
  "snd (ParseInt (Get (Query (request_with ''ip'' ''3232235521'')) ''ip'') 32) \<noteq> None \<and>
   calls (GetAnnounceHandler (const_encoder [''d''] None) (memory_app 0) new_writer
     (request_with ''ip'' ''3232235521'') []) = [] \<and>
   well_formed (request_with ''ip'' ''-1062731775'') \<and>
   (\<exists>p rest. calls (GetAnnounceHandler (const_encoder [''d''] None) (memory_app 0) new_writer
       (request_with ''ip'' ''-1062731775'') []) = Call_Update p # rest \<and>
      IP p = ''192.168.0.1'')"
proof -
  note bad = announce_ip_decoding [where r = "request_with ''ip'' ''3232235521''"
      and Marshal = "const_encoder [''d''] None" and webApp = "memory_app 0"
      and w = new_writer and s = "[]", THEN conjunct1, THEN mp, OF unsigned_ip_rejected,
      THEN conjunct1]
  note ok = announce_ip_decoding [where r = "request_with ''ip'' ''-1062731775''"
      and Marshal = "const_encoder [''d''] None" and webApp = "memory_app 0"
      and w = new_writer and s = "[]", THEN conjunct2, THEN conjunct1, THEN mp,
      OF negative_ip_well_formed, THEN conjunct2, THEN conjunct2,
      unfolded unat_ucast_sint [symmetric] negative_ip_address]
  show ?thesis
    by (intro conjI unsigned_ip_rejected bad negative_ip_well_formed ok)
qed




text \<open>
  C9. When the run reaches sampling, \<^verbatim>\<open>SamplePeers\<close> is called once, with the slice that
  \<^verbatim>\<open>Read\<close> returned as \<^verbatim>\<open>AssignPeerPriority\<close> left it, and with the length of that slice
  as the limit: the number of peers \<^verbatim>\<open>Read\<close> returned. No parameter of the request
  other than the nine the handler reads has any influence on the run, so no peer count
  a client supplies changes the limit.
\<close>

theorem announce_sample_limit:
  assumes "well_formed r" and "fst (Update_ret webApp r s) = None"
    and "fst (snd (Read_ret webApp r s)) = None"
    and "fst (snd (Assign_ret webApp r s)) = None"
  shows "(\<exists>ps rest. calls (GetAnnounceHandler Marshal webApp w r s) =
            [Call_Update (peer_of r), Call_Read (InfoHash (peer_of r)),
             Call_AssignPeerPriority (IP (peer_of r)) (DC (peer_of r)) (fst (Read_ret webApp r s)),
             Call_SamplePeers ps (length (fst (Read_ret webApp r s)))] @ rest \<and>
            length ps = length (fst (Read_ret webApp r s)) \<and>
            \<not> list_ex is_SamplePeers rest) \<and>
         (\<forall>r'. (\<forall>k\<in>set announce_keys. Get (Query r') k = Get (Query r) k) \<longrightarrow>
            GetAnnounceHandler Marshal webApp w r' s = GetAnnounceHandler Marshal webApp w r s)"
proof -
  have len: "length (prioritized webApp r s) = length (fst (Read_ret webApp r s))"
    by (simp add: prioritized_def)
  have "\<exists>rest. calls (GetAnnounceHandler Marshal webApp w r s) =
      take 4 (all_calls webApp r s) @ rest \<and> \<not> list_ex is_SamplePeers rest"
  proof (cases rule: run_cases [where webApp = webApp and r = r and s = s and Marshal = Marshal])
    case (Update e) with assms show ?thesis by simp
  next
    case (Read e) with assms show ?thesis by simp
  next
    case (Assign e) with assms show ?thesis by simp
  next
    case (Sample e)
    show ?thesis by (simp add: handler_Sample_fails [OF assms(1) Sample])
  next
    case Panic
    show ?thesis by (simp add: handler_panics [OF assms(1) Panic])
  next
    case (Marshal e)
    show ?thesis
      by (simp add: handler_Marshal_fails [where Marshal = Marshal, OF assms(1) Marshal]
          all_calls_def)
  next
    case Done
    show ?thesis
      by (simp add: handler_succeeds [where Marshal = Marshal, OF assms(1) Done] all_calls_def)
  qed
  then have "\<exists>ps rest. calls (GetAnnounceHandler Marshal webApp w r s) =
            [Call_Update (peer_of r), Call_Read (InfoHash (peer_of r)),
             Call_AssignPeerPriority (IP (peer_of r)) (DC (peer_of r)) (fst (Read_ret webApp r s)),
             Call_SamplePeers ps (length (fst (Read_ret webApp r s)))] @ rest \<and>
            length ps = length (fst (Read_ret webApp r s)) \<and>
            \<not> list_ex is_SamplePeers rest"
    using len by (auto simp: all_calls_def)
  then show ?thesis
    using handler_reads_nine [where Marshal = Marshal and webApp = webApp and w = w and s = s
        and r = r]
    by blast
qed

theorem announce_sample_limit_witness:
  "well_formed (request_with ''numwant'' ''1'') \<and>
   fst (Update_ret (memory_app 0) (request_with ''numwant'' ''1'') [other_peer]) = None \<and>
   fst (snd (Read_ret (memory_app 0) (request_with ''numwant'' ''1'') [other_peer])) = None \<and>
   fst (snd (Assign_ret (memory_app 0) (request_with ''numwant'' ''1'') [other_peer])) = None \<and>
   Get (Query (request_with ''numwant'' ''1'')) ''numwant'' = ''1'' \<and>
   fst (Read_ret (memory_app 0) (request_with ''numwant'' ''1'') [other_peer]) =
     [Some scenario_peer, Some other_peer] \<and>
   (\<exists>ps. Call_SamplePeers ps 2 \<in> set (calls (GetAnnounceHandler (const_encoder [''d''] None)
      (memory_app 0) new_writer (request_with ''numwant'' ''1'') [other_peer]))) \<and>
   GetAnnounceHandler (const_encoder [''d''] None) (memory_app 0) new_writer
      (request_with ''event'' ''started'') [other_peer] =
   GetAnnounceHandler (const_encoder [''d''] None) (memory_app 0) new_writer
      (request_with ''numwant'' ''1'') [other_peer]"
proof -
  have u: "fst (Update_ret (memory_app 0) (request_with ''numwant'' ''1'') [other_peer]) = None"
    by (simp add: memory_errors)
  have r: "fst (snd (Read_ret (memory_app 0) (request_with ''numwant'' ''1'') [other_peer])) = None"
    by (simp add: memory_errors)
  have a: "fst (snd (Assign_ret (memory_app 0) (request_with ''numwant'' ''1'') [other_peer])) = None"
    by (simp add: memory_errors)
  have g: "Get (Query (request_with ''numwant'' ''1'')) ''numwant'' = ''1''"
    by (simp add: request_eval)
  have rd: "fst (Read_ret (memory_app 0) (request_with ''numwant'' ''1'') [other_peer]) =
     [Some scenario_peer, Some other_peer]"
    by (simp add: memory_stages numwant_peer_of) (simp add: scenario_peer_def other_peer_def)
  have same: "\<forall>k\<in>set announce_keys.
      Get (Query (request_with ''event'' ''started'')) k = Get (Query (request_with ''numwant'' ''1'')) k"
    by (simp add: announce_keys_def request_eval)
  note inst = announce_sample_limit [OF numwant_well_formed u r a,
      where Marshal = "const_encoder [''d''] None" and w = new_writer]
  from inst [THEN conjunct1] have sp: "\<exists>ps. Call_SamplePeers ps 2 \<in> set (calls (GetAnnounceHandler
      (const_encoder [''d''] None) (memory_app 0) new_writer (request_with ''numwant'' ''1'')
      [other_peer]))"
    by (auto simp: rd)
  have eq: "GetAnnounceHandler (const_encoder [''d''] None) (memory_app 0)
      new_writer (request_with ''event'' ''started'') [other_peer] =
    GetAnnounceHandler (const_encoder [''d''] None) (memory_app 0) new_writer
      (request_with ''numwant'' ''1'') [other_peer]"
    by (rule inst [THEN conjunct2, THEN spec, THEN mp]) (rule same)
  show ?thesis
    by (intro conjI numwant_well_formed u r a g rd sp eq)
qed

text \<open>
  C10. A request whose \<^verbatim>\<open>info_hash\<close> or \<^verbatim>\<open>peer_id\<close> is missing or empty is not rejected
  for it: when the five numbers parse, \<^verbatim>\<open>Update\<close> is called with a record whose
  \<^verbatim>\<open>InfoHash\<close> (or \<^verbatim>\<open>PeerID\<close>) is the empty string, the hex encoding of the empty value,
  and \<^verbatim>\<open>Read\<close>, when called, is called with that empty key.
\<close>

theorem announce_empty_identifiers:
  assumes "well_formed r"
  shows "\<exists>p rest. calls (GetAnnounceHandler Marshal webApp w r s) = Call_Update p # rest \<and>
    (map_of (Query r) ''info_hash'' = None \<or> Get (Query r) ''info_hash'' = [] \<longrightarrow>
       InfoHash p = [] \<and> (\<forall>c\<in>set rest. is_Read c \<longrightarrow> c = Call_Read [])) \<and>
    (map_of (Query r) ''peer_id'' = None \<or> Get (Query r) ''peer_id'' = [] \<longrightarrow> PeerID p = [])"
proof -
  from handler_calls_prefix [OF assms,
      where Marshal = Marshal and webApp = webApp and w = w and s = s]
  obtain k where k: "1 \<le> k" "k \<le> 5"
    and c: "calls (GetAnnounceHandler Marshal webApp w r s) = take k (all_calls webApp r s)"
    by blast
  from k have ks: "k = 1 \<or> k = 2 \<or> k = 3 \<or> k = 4 \<or> k = 5" by arith
  have i: "map_of (Query r) ''info_hash'' = None \<or> Get (Query r) ''info_hash'' = [] \<Longrightarrow>
      InfoHash (peer_of r) = []"
    by (auto simp: peer_of_def EncodeToString_def Get_absent)
  have p: "map_of (Query r) ''peer_id'' = None \<or> Get (Query r) ''peer_id'' = [] \<Longrightarrow>
      PeerID (peer_of r) = []"
    by (auto simp: peer_of_def EncodeToString_def Get_absent)
  have "\<exists>rest. calls (GetAnnounceHandler Marshal webApp w r s) = Call_Update (peer_of r) # rest \<and>
      (\<forall>c\<in>set rest. is_Read c \<longrightarrow> c = Call_Read (InfoHash (peer_of r)))"
    using ks unfolding c all_calls_def by (elim disjE) simp_all
  with i p show ?thesis by metis
qed

theorem announce_empty_identifiers_witness:
  "well_formed (request_without ''info_hash'') \<and>
   map_of (Query (request_without ''info_hash'')) ''info_hash'' = None \<and>
   (\<exists>p rest. calls (GetAnnounceHandler (const_encoder [''d''] None) (memory_app 0) new_writer
       (request_without ''info_hash'') []) = Call_Update p # Call_Read [] # rest \<and>
      InfoHash p = []) \<and>
   well_formed (request_with ''peer_id'' []) \<and>
   Get (Query (request_with ''peer_id'' [])) ''peer_id'' = [] \<and>
   (\<exists>p rest. calls (GetAnnounceHandler (const_encoder [''d''] None) (memory_app 0) new_writer
       (request_with ''peer_id'' []) []) = Call_Update p # rest \<and> PeerID p = [])"
proof -
  have m: "map_of (Query (request_without ''info_hash'')) ''info_hash'' = None"
    by (simp add: request_eval)
  have g: "Get (Query (request_with ''peer_id'' [])) ''peer_id'' = []"
    by (simp add: request_eval)
  have c: "calls (GetAnnounceHandler (const_encoder [''d''] None) (memory_app 0) new_writer
       (request_without ''info_hash'') []) =
      all_calls (memory_app 0) (request_without ''info_hash'') []"
    by (subst handler_succeeds [OF no_info_hash_well_formed])
      (simp_all add: memory_errors memory_no_nil const_encoder_def)
  from announce_empty_identifiers [OF no_info_hash_well_formed,
      where Marshal = "const_encoder [''d''] None" and webApp = "memory_app 0"
        and w = new_writer and s = "[]"] m
  obtain p rest where pr: "calls (GetAnnounceHandler (const_encoder [''d''] None) (memory_app 0)
       new_writer (request_without ''info_hash'') []) = Call_Update p # rest"
    "InfoHash p = []" "\<forall>c\<in>set rest. is_Read c \<longrightarrow> c = Call_Read []"
    by blast
  from pr(1) [unfolded c] obtain rest' where r': "rest = Call_Read (InfoHash p) # rest'"
    by (auto simp: all_calls_def)
  have "calls (GetAnnounceHandler (const_encoder [''d''] None) (memory_app 0)
       new_writer (request_without ''info_hash'') []) = Call_Update p # Call_Read [] # rest'"
    using pr(1) r' pr(2) by simp
  with pr(2) have i: "\<exists>p rest. calls (GetAnnounceHandler (const_encoder [''d''] None)
       (memory_app 0) new_writer (request_without ''info_hash'') []) =
         Call_Update p # Call_Read [] # rest \<and>
      InfoHash p = []"
    by (intro exI conjI)
  from announce_empty_identifiers [OF empty_peer_id_well_formed,
      where Marshal = "const_encoder [''d''] None" and webApp = "memory_app 0"
        and w = new_writer and s = "[]"] g
  have p: "\<exists>p rest. calls (GetAnnounceHandler (const_encoder [''d''] None) (memory_app 0)
       new_writer (request_with ''peer_id'' []) []) = Call_Update p # rest \<and> PeerID p = []"
    by blast
  show ?thesis
    by (intro conjI no_info_hash_well_formed m i empty_peer_id_well_formed g p)
qed

end
